theory Spec2Isabelle
  imports Complex_Main "HOL-Library.Log_Nat"
begin

section \<open>Data model (shared/schema.ts)\<close>

text \<open>
  The tables of \<^verbatim>\<open>shared/schema.ts\<close>, each row a record. Only the columns that the
  status derivation, the registration route and the listings read or write are kept;
  display columns (name, location, description, image, duration, timestamps of
  creation and update) and the database-generated registration id are left out.
  Instants are milliseconds since the epoch as \<open>int\<close> (what \<^verbatim>\<open>Date.getTime()\<close>
  returns); integer columns are \<open>int\<close>. The price of an extra service is the JSON number
  stored in the \<^verbatim>\<open>jsonb\<close> column, a decimal; the server reads it as the nearest
  double (see the section on JavaScript numbers).
\<close>

record ExtraService =
  description :: string
  price :: rat

datatype EventStatus = Open | RegistrationClosed | Full | Past | Editing

fun status_string :: "EventStatus \<Rightarrow> string" where
  "status_string Open = ''open''"
| "status_string RegistrationClosed = ''registration_closed''"
| "status_string Full = ''full''"
| "status_string Past = ''past''"
| "status_string Editing = ''editing''"

record Event =
  ev_id :: string
  startTime :: int
  maxSeats :: int
  remainingSeats :: int
  creditsRequired :: int
  cutoffHours :: int
  extraServices :: "ExtraService list"
  allowedRegistrants :: string
  status :: string
  deleted :: bool

record Child =
  child_id :: string
  child_parentId :: string

record User =
  user_id :: string
  replitId :: "string option"
  role :: string

record EventRegistration =
  eventId :: string
  childId :: "string option"
  parentId :: string
  selectedServices :: "int list"
  creditsCost :: int
  servicesCost :: int

text \<open>The database: one list of rows per table, in storage order.\<close>

record db =
  events :: "Event list"
  attendee :: "Child list"
  users :: "User list"
  eventRegistrations :: "EventRegistration list"

section \<open>JavaScript numbers\<close>

text \<open>
  A JavaScript number is an IEEE 754 binary64 value: a finite double (modelled by the
  rational it denotes, the sign of zero dropped), an infinity, or NaN. An arithmetic
  operation computes the exact result and rounds it to the nearest double, a tie going
  to the even significand (\<open>round64\<close>): the unit in the last place of \<open>x\<close> is \<open>2\<close> to
  the power \<open>\<lfloor>log\<^sub>2 \<bar>x\<bar>\<rfloor> - 52\<close>, and no less than \<open>2\<close> to the \<open>-1074\<close> (subnormals); a
  rounded magnitude of \<open>2\<close> to the \<open>1024\<close> or more overflows to an infinity.
\<close>

datatype number = Finite rat | PosInfinity | NegInfinity | NaN

definition round_half_even :: "rat \<Rightarrow> int" where
  "round_half_even q =
     (let f = \<lfloor>q\<rfloor>; r = q - of_int f
      in if r < 1 / 2 then f else if 1 / 2 < r then f + 1 else if even f then f else f + 1)"

definition floor_log2 :: "rat \<Rightarrow> int" where
  "floor_log2 x = (if 1 \<le> x then bitlen \<lfloor>x\<rfloor> - 1 else - bitlen (\<lceil>1 / x\<rceil> - 1))"

definition round64 :: "rat \<Rightarrow> number" where
  "round64 x =
     (if x = 0 then Finite 0
      else let e = max (floor_log2 \<bar>x\<bar> - 52) (- 1074);
               m = round_half_even (x / 2 powi e);
               y = of_int m * 2 powi e
           in if 2 ^ 1024 \<le> \<bar>y\<bar> then (if 0 < x then PosInfinity else NegInfinity)
              else Finite y)"

text \<open>\<^verbatim>\<open>a + b\<close> and \<^verbatim>\<open>a * b\<close> on numbers.\<close>

fun js_add :: "number \<Rightarrow> number \<Rightarrow> number" where
  "js_add (Finite a) (Finite b) = round64 (a + b)"
| "js_add NaN b = NaN"
| "js_add a NaN = NaN"
| "js_add PosInfinity NegInfinity = NaN"
| "js_add NegInfinity PosInfinity = NaN"
| "js_add PosInfinity b = PosInfinity"
| "js_add a PosInfinity = PosInfinity"
| "js_add NegInfinity b = NegInfinity"
| "js_add a NegInfinity = NegInfinity"

fun js_mul :: "number \<Rightarrow> number \<Rightarrow> number" where
  "js_mul (Finite a) (Finite b) = round64 (a * b)"
| "js_mul NaN b = NaN"
| "js_mul a NaN = NaN"
| "js_mul (Finite a) PosInfinity =
     (if a = 0 then NaN else if 0 < a then PosInfinity else NegInfinity)"
| "js_mul (Finite a) NegInfinity =
     (if a = 0 then NaN else if 0 < a then NegInfinity else PosInfinity)"
| "js_mul PosInfinity (Finite b) =
     (if b = 0 then NaN else if 0 < b then PosInfinity else NegInfinity)"
| "js_mul NegInfinity (Finite b) =
     (if b = 0 then NaN else if 0 < b then NegInfinity else PosInfinity)"
| "js_mul PosInfinity PosInfinity = PosInfinity"
| "js_mul NegInfinity NegInfinity = PosInfinity"
| "js_mul PosInfinity NegInfinity = NegInfinity"
| "js_mul NegInfinity PosInfinity = NegInfinity"

text \<open>
  \<^verbatim>\<open>Math.round\<close>: the nearest integer, a tie going up; infinities and NaN stay. Reading
  a JSON number gives the double nearest to the decimal.
\<close>

fun Math_round :: "number \<Rightarrow> number" where
  "Math_round (Finite x) = Finite (of_int \<lfloor>x + 1 / 2\<rfloor>)"
| "Math_round n = n"

definition JSON_number :: "rat \<Rightarrow> number" where
  "JSON_number x = round64 x"

text \<open>
  A number written to an \<^verbatim>\<open>integer\<close> column of the database: the statement fails
  unless the number is an integer between \<open>-2\<^sup>3\<^sup>1\<close> and \<open>2\<^sup>3\<^sup>1 - 1\<close>.
\<close>

definition int32 :: "int \<Rightarrow> bool" where
  "int32 k = (- 2147483648 \<le> k \<and> k \<le> 2147483647)"

definition pg_integer :: "number \<Rightarrow> int option" where
  "pg_integer n =
     (case n of
        Finite x \<Rightarrow> if of_int \<lfloor>x\<rfloor> = x \<and> int32 \<lfloor>x\<rfloor> then Some \<lfloor>x\<rfloor> else None
      | PosInfinity \<Rightarrow> None
      | NegInfinity \<Rightarrow> None
      | NaN \<Rightarrow> None)"

text \<open>
  Running totals of integer amounts that stay among the integers every double
  represents exactly (magnitude below \<open>2\<^sup>5\<^sup>3\<close>).
\<close>

text \<open>A number whose value, when finite, is a double: rounding leaves it as it is.\<close>

definition is_double :: "number \<Rightarrow> bool" where
  "is_double n = (case n of Finite y \<Rightarrow> round64 y = Finite y | PosInfinity \<Rightarrow> True
                  | NegInfinity \<Rightarrow> True | NaN \<Rightarrow> True)"

fun safe_totals :: "int \<Rightarrow> int list \<Rightarrow> bool" where
  "safe_totals a [] = True"
| "safe_totals a (c # cs) = (\<bar>a + c\<bar> < 2 ^ 53 \<and> safe_totals (a + c) cs)"

section \<open>Dates in the server's time zone\<close>

text \<open>
  \<^verbatim>\<open>Date.getHours\<close> and \<^verbatim>\<open>Date.setHours\<close> work on local time. The server's time
  zone is a parameter: the offset of local time from UTC in milliseconds, at a UTC
  instant and at a local time value. The functions follow the ECMAScript definitions
  (LocalTime, UTC, Day, HourFromTime, MakeTime, MakeDate); instants stay within the range
  of \<^verbatim>\<open>Date\<close>.
\<close>

record TimeZone =
  offset_at_utc :: "int \<Rightarrow> int"
  offset_at_local :: "int \<Rightarrow> int"

definition LocalTime :: "TimeZone \<Rightarrow> int \<Rightarrow> int" where
  "LocalTime zone t = t + offset_at_utc zone t"

definition UTC :: "TimeZone \<Rightarrow> int \<Rightarrow> int" where
  "UTC zone t = t - offset_at_local zone t"

definition Day :: "int \<Rightarrow> int" where
  "Day t = t div 86400000"

definition HourFromTime :: "int \<Rightarrow> int" where
  "HourFromTime t = (t div 3600000) mod 24"

definition MinFromTime :: "int \<Rightarrow> int" where
  "MinFromTime t = (t div 60000) mod 60"

definition SecFromTime :: "int \<Rightarrow> int" where
  "SecFromTime t = (t div 1000) mod 60"

definition msFromTime :: "int \<Rightarrow> int" where
  "msFromTime t = t mod 1000"

definition MakeTime :: "int \<Rightarrow> int \<Rightarrow> int \<Rightarrow> int \<Rightarrow> int" where
  "MakeTime hour minute sec ms = hour * 3600000 + minute * 60000 + sec * 1000 + ms"

definition MakeDate :: "int \<Rightarrow> int \<Rightarrow> int" where
  "MakeDate day time = day * 86400000 + time"

definition getHours :: "TimeZone \<Rightarrow> int \<Rightarrow> int" where
  "getHours zone t = HourFromTime (LocalTime zone t)"

definition setHours :: "TimeZone \<Rightarrow> int \<Rightarrow> int \<Rightarrow> int" where
  "setHours zone t hour =
     (let lt = LocalTime zone t
      in UTC zone (MakeDate (Day lt)
           (MakeTime hour (MinFromTime lt) (SecFromTime lt) (msFromTime lt))))"

section \<open>Status derivation (shared/schema.ts, calculateEventStatus)\<close>

text \<open>
  \<^verbatim>\<open>calculateEventStatus(event)\<close> reads the clock with \<^verbatim>\<open>new Date()\<close>; the clock is
  the argument \<open>now\<close> here. The function has four return statements and none of them
  looks at \<^verbatim>\<open>event.status\<close>.
\<close>

definition calculateEventStatus :: "int \<Rightarrow> Event \<Rightarrow> EventStatus" where
  "calculateEventStatus now event =
     (let eventDate = startTime event;
          cutoffTime = eventDate - cutoffHours event * 60 * 60 * 1000
      in if eventDate < now then Past
         else if remainingSeats event \<le> 0 then Full
         else if now > cutoffTime then RegistrationClosed
         else Open)"

section \<open>Event listings (server/storage.ts)\<close>

text \<open>
  \<^verbatim>\<open>getAllEvents\<close> selects every event ordered by start time, latest first, drops
  the soft-deleted ones unless asked to keep them, and overrides each row's stored
  status with the calculated one. The supervisor columns it joins in are not modelled.
\<close>

definition getAllEvents :: "int \<Rightarrow> bool \<Rightarrow> db \<Rightarrow> Event list" where
  "getAllEvents now includeDeleted d =
     (let eventsData = rev (sort_key startTime (events d));
          filteredEvents = (if includeDeleted then eventsData
                            else filter (\<lambda>event. \<not> deleted event) eventsData)
      in map (\<lambda>event. event\<lparr>status := status_string (calculateEventStatus now event)\<rparr>)
             filteredEvents)"

definition getAllEventsForAdmin :: "int \<Rightarrow> db \<Rightarrow> Event list" where
  "getAllEventsForAdmin now d = getAllEvents now True d"

definition getEventsForUser :: "int \<Rightarrow> db \<Rightarrow> Event list" where
  "getEventsForUser now d =
     filter (\<lambda>event. status event \<noteq> ''past'' \<and> status event \<noteq> ''editing'')
            (getAllEvents now False d)"

definition getEvent :: "db \<Rightarrow> string \<Rightarrow> Event option" where
  "getEvent d i = find (\<lambda>event. ev_id event = i) (events d)"

section \<open>Storage operations (server/storage.ts)\<close>

text \<open>
  Each method of \<^verbatim>\<open>DatabaseStorage\<close> is one SQL statement. A select that
  destructures \<^verbatim>\<open>const [row] = ...\<close> returns the first matching row; an update
  rewrites every row its WHERE clause matches and \<^verbatim>\<open>returning()\<close> hands back the
  first of them.
\<close>

definition getChild :: "db \<Rightarrow> string \<Rightarrow> Child option" where
  "getChild d i = find (\<lambda>child. child_id child = i) (attendee d)"

definition getUserByReplitId :: "db \<Rightarrow> string \<Rightarrow> User option" where
  "getUserByReplitId d r = find (\<lambda>user. replitId user = Some r) (users d)"

definition updateEventStatus :: "db \<Rightarrow> string \<Rightarrow> string \<Rightarrow> Event option \<times> db" where
  "updateEventStatus d i s =
     (let d' = d\<lparr>events := map (\<lambda>event. if ev_id event = i then event\<lparr>status := s\<rparr> else event)
                               (events d)\<rparr>
      in (getEvent d' i, d'))"

definition updateEventSeats :: "db \<Rightarrow> string \<Rightarrow> int \<Rightarrow> Event option \<times> db" where
  "updateEventSeats d i seatsChange =
     (let d' = d\<lparr>events :=
                  map (\<lambda>event. if ev_id event = i
                        then event\<lparr>remainingSeats := remainingSeats event + seatsChange\<rparr>
                        else event)
                      (events d)\<rparr>
      in (getEvent d' i, d'))"

text \<open>
  \<^verbatim>\<open>updateEvent\<close> takes a \<^verbatim>\<open>Partial<InsertEvent>\<close>: every column is optional, and the
  columns left undefined are filtered out before the update.
\<close>

record EventUpdate =
  u_startTime :: "int option"
  u_maxSeats :: "int option"
  u_remainingSeats :: "int option"
  u_creditsRequired :: "int option"
  u_cutoffHours :: "int option"
  u_extraServices :: "ExtraService list option"
  u_allowedRegistrants :: "string option"
  u_status :: "string option"
  u_deleted :: "bool option"

definition orElse :: "'a option \<Rightarrow> 'a \<Rightarrow> 'a" where
  "orElse v old = (case v of None \<Rightarrow> old | Some x \<Rightarrow> x)"

definition setColumns :: "EventUpdate \<Rightarrow> Event \<Rightarrow> Event" where
  "setColumns u event =
     event\<lparr>startTime := orElse (u_startTime u) (startTime event),
           maxSeats := orElse (u_maxSeats u) (maxSeats event),
           remainingSeats := orElse (u_remainingSeats u) (remainingSeats event),
           creditsRequired := orElse (u_creditsRequired u) (creditsRequired event),
           cutoffHours := orElse (u_cutoffHours u) (cutoffHours event),
           extraServices := orElse (u_extraServices u) (extraServices event),
           allowedRegistrants := orElse (u_allowedRegistrants u) (allowedRegistrants event),
           status := orElse (u_status u) (status event),
           deleted := orElse (u_deleted u) (deleted event)\<rparr>"

definition updateEvent :: "db \<Rightarrow> string \<Rightarrow> EventUpdate \<Rightarrow> Event option \<times> db" where
  "updateEvent d i eventData =
     (let d' = d\<lparr>events := map (\<lambda>event. if ev_id event = i then setColumns eventData event
                                          else event)
                               (events d)\<rparr>
      in (getEvent d' i, d'))"

text \<open>
  \<^verbatim>\<open>createEventRegistration\<close> inserts one row. The value handed in is the JavaScript
  object of the route, its services cost a number. The insert fails, changing nothing,
  when a cost does not fit its \<^verbatim>\<open>integer\<close> column or a foreign key has no target (the
  event, the parent among the users, the child among the attendees).
\<close>

record InsertEventRegistration =
  ins_eventId :: string
  ins_childId :: "string option"
  ins_parentId :: string
  ins_selectedServices :: "int list"
  ins_creditsCost :: int
  ins_servicesCost :: number

definition createEventRegistration ::
    "db \<Rightarrow> InsertEventRegistration \<Rightarrow> (EventRegistration \<times> db) option" where
  "createEventRegistration d registration =
     (case pg_integer (ins_servicesCost registration) of
        None \<Rightarrow> None
      | Some cost \<Rightarrow>
          if int32 (ins_creditsCost registration)
             \<and> list_ex (\<lambda>ev. ev_id ev = ins_eventId registration) (events d)
             \<and> list_ex (\<lambda>user. user_id user = ins_parentId registration) (users d)
             \<and> (case ins_childId registration of
                   None \<Rightarrow> True
                 | Some cid \<Rightarrow> list_ex (\<lambda>ch. child_id ch = cid) (attendee d))
          then let row = \<lparr>eventId = ins_eventId registration,
                           childId = ins_childId registration,
                           parentId = ins_parentId registration,
                           selectedServices = ins_selectedServices registration,
                           creditsCost = ins_creditsCost registration,
                           servicesCost = cost\<rparr>
               in Some (row, d\<lparr>eventRegistrations := eventRegistrations d @ [row]\<rparr>)
          else None)"

definition getEventRegistrationsByParent :: "db \<Rightarrow> string \<Rightarrow> EventRegistration list" where
  "getEventRegistrationsByParent d p = filter (\<lambda>reg. parentId reg = p) (eventRegistrations d)"

definition isChildRegisteredForEvent :: "db \<Rightarrow> string \<Rightarrow> string \<Rightarrow> bool" where
  "isChildRegisteredForEvent d c e =
     (case find (\<lambda>reg. childId reg = Some c \<and> eventId reg = e) (eventRegistrations d) of
        None \<Rightarrow> False
      | Some registration \<Rightarrow> True)"

text \<open>
  \<^verbatim>\<open>getEventRegistrationsWithDetailsForParent\<close>: registrations inner-joined with
  their event and with their child, restricted to one parent, ordered by the event's
  start time. A row of the result carries the registration, the event and the child
  (the source projects some of their columns).
\<close>

record RegistrationDetails =
  row_registration :: EventRegistration
  row_event :: Event
  row_child :: Child

definition getEventRegistrationsWithDetailsForParent :: "db \<Rightarrow> string \<Rightarrow> RegistrationDetails list" where
  "getEventRegistrationsWithDetailsForParent d p =
     sort_key (\<lambda>row. startTime (row_event row))
       (concat (map (\<lambda>reg.
          concat (map (\<lambda>ev.
            concat (map (\<lambda>ch.
              if eventId reg = ev_id ev \<and> childId reg = Some (child_id ch) \<and> parentId reg = p
              then [\<lparr>row_registration = reg, row_event = ev, row_child = ch\<rparr>] else [])
              (attendee d)))
            (events d)))
          (eventRegistrations d)))"

section \<open>Routes (server/routes.ts)\<close>

text \<open>
  A route answers with a JSON body under a status code, or with a message under a
  status code; it returns the answer and the database it leaves behind.
\<close>

datatype 'a response = Json nat 'a | Message nat string

text \<open>
  The authenticated caller: a Replit OAuth session carries \<^verbatim>\<open>claims.sub\<close>, an
  email and password session carries the user row (its id and role).
\<close>

datatype principal = ReplitUser string | LocalUser string string

record request =
  req_user :: principal
  params_eventId :: string
  body_childId :: "string option"
  body_selectedServices :: "int list option"

text \<open>
  Storage calls can throw (connectivity). One flag per storage call the registration
  route makes says whether that call throws in this run; a statement that throws changes
  nothing. The insert of the registration throws as well when the database refuses the
  row. What the \<^verbatim>\<open>try\<close> block throws is a value: the validation error of the
  schema, or the error of the storage call that failed.
\<close>

record faults =
  f_getEvent :: bool
  f_isChildRegisteredForEvent :: bool
  f_getChild :: bool
  f_getEventRegistrationsByParent :: bool
  f_createEventRegistration :: bool
  f_getUserByReplitId :: bool
  f_updateEventSeats :: bool

definition no_faults :: faults where
  "no_faults = \<lparr>f_getEvent = False, f_isChildRegisteredForEvent = False, f_getChild = False,
     f_getEventRegistrationsByParent = False, f_createEventRegistration = False,
     f_getUserByReplitId = False, f_updateEventSeats = False\<rparr>"

datatype storage_call =
    GetEvent | IsChildRegisteredForEvent | GetChild | GetEventRegistrationsByParent
  | CreateEventRegistration | GetUserByReplitId | UpdateEventSeats

datatype error = ZodError | StorageError storage_call

text \<open>JavaScript truthiness of \<^verbatim>\<open>req.body.childId\<close>: absent, null and the empty string are falsy.\<close>

definition truthy :: "string option \<Rightarrow> bool" where
  "truthy v = (case v of None \<Rightarrow> False | Some s \<Rightarrow> s \<noteq> [])"

text \<open>
  \<^verbatim>\<open>registrationSchema.parse\<close> on a body of the declared types: the event id must
  have at least one character. The two cost fields are absent from the request and set
  later by the route (here they start at the columns' default).
\<close>

definition registrationSchema_parse ::
    "string \<Rightarrow> string option \<Rightarrow> string \<Rightarrow> int list \<Rightarrow> InsertEventRegistration option" where
  "registrationSchema_parse eid cid pid sel =
     (if length eid < 1 then None
      else Some \<lparr>ins_eventId = eid, ins_childId = cid, ins_parentId = pid,
                 ins_selectedServices = sel, ins_creditsCost = 0, ins_servicesCost = Finite 0\<rparr>)"

text \<open>\<^verbatim>\<open>array?.[i]\<close>: undefined outside the array, also for a negative index.\<close>

definition js_index :: "'a list \<Rightarrow> int \<Rightarrow> 'a option" where
  "js_index xs i = (if 0 \<le> i \<and> i < int (length xs) then Some (xs ! nat i) else None)"

text \<open>
  Lines 544 to 547: the services cost, a \<^verbatim>\<open>reduce\<close> over the selected indices from
  \<open>0\<close>. \<open>priceInCents\<close> is the expression \<^verbatim>\<open>Math.round(service.price * 100)\<close>.
\<close>

definition priceInCents :: "ExtraService \<Rightarrow> number" where
  "priceInCents service = Math_round (js_mul (JSON_number (price service)) (Finite 100))"

definition calcServicesCost :: "Event \<Rightarrow> int list \<Rightarrow> number" where
  "calcServicesCost ev sel =
     foldl (\<lambda>total serviceIndex.
              js_add total (case js_index (extraServices ev) serviceIndex of
                              Some service \<Rightarrow> priceInCents service
                            | None \<Rightarrow> Finite 0))
           (Finite 0) sel"

text \<open>
  The selected services that the event has: the services at the selected indices that
  fall within \<^verbatim>\<open>event.extraServices\<close>, in the order of the selection.
\<close>

definition in_range :: "Event \<Rightarrow> int \<Rightarrow> bool" where
  "in_range ev i = (0 \<le> i \<and> i < int (length (extraServices ev)))"

definition selected_in_range :: "Event \<Rightarrow> int list \<Rightarrow> ExtraService list" where
  "selected_in_range ev sel = map (\<lambda>i. extraServices ev ! nat i) (filter (in_range ev) sel)"

text \<open>
  Lines 491 to 493: the cutoff instant is the start time with \<^verbatim>\<open>cutoffHours\<close> taken
  off its local hours field.
\<close>

definition cutoffTime :: "TimeZone \<Rightarrow> Event \<Rightarrow> int" where
  "cutoffTime zone ev =
     setHours zone (startTime ev) (getHours zone (startTime ev) - cutoffHours ev)"

text \<open>
  A stretch of the \<^verbatim>\<open>try\<close> block ends in one of three ways: a storage call or the
  schema throws, the route answers and returns, or control goes on to the next
  statement.
\<close>

datatype 'a outcome = Throws error | Answers "EventRegistration response" | Continues 'a

text \<open>
  Lines 510 to 540 of the route: the uniqueness check, and for a child the ownership
  check.
\<close>

definition checkRegistrant ::
    "faults \<Rightarrow> db \<Rightarrow> string \<Rightarrow> string \<Rightarrow> InsertEventRegistration \<Rightarrow> bool \<Rightarrow> unit outcome" where
  "checkRegistrant F d userId eid registrationData isChildRegistration =
     (if isChildRegistration then
        (case ins_childId registrationData of
           None \<Rightarrow> Answers (Message 404 ''Child not found'')
         | Some cid \<Rightarrow>
             if f_isChildRegisteredForEvent F then Throws (StorageError IsChildRegisteredForEvent)
             else if isChildRegisteredForEvent d cid eid
               then Answers (Message 400 ''Child is already registered for this event'')
             else if f_getChild F then Throws (StorageError GetChild)
             else (case getChild d cid of
                     None \<Rightarrow> Answers (Message 404 ''Child not found'')
                   | Some ch \<Rightarrow>
                       if child_parentId ch \<noteq> userId
                         then Answers (Message 404 ''Child not found'')
                       else Continues ()))
      else
        (if f_getEventRegistrationsByParent F
           then Throws (StorageError GetEventRegistrationsByParent)
         else if list_ex (\<lambda>reg. eventId reg = eid \<and> childId reg = None)
                   (getEventRegistrationsByParent d userId)
           then Answers (Message 400 ''You are already registered for this event'')
         else Continues ()))"

text \<open>
  Lines 461 to 540: the request is parsed, the event fetched, and the rules checked one
  after the other. When every rule passes, control goes on with the event and the parsed
  registration data. Nothing is written.
\<close>

definition register_checks ::
    "TimeZone \<Rightarrow> faults \<Rightarrow> int \<Rightarrow> request \<Rightarrow> db
     \<Rightarrow> (Event \<times> InsertEventRegistration) outcome" where
  "register_checks zone F now req d =
     (let userId = (case req_user req of ReplitUser sub \<Rightarrow> sub | LocalUser uid r \<Rightarrow> uid);
          eid = params_eventId req;
          isChildRegistration = truthy (body_childId req);
          isParentRegistration = (\<not> truthy (body_childId req))
      in case registrationSchema_parse eid
                (if truthy (body_childId req) then body_childId req else None) userId
                (orElse (body_selectedServices req) []) of
           None \<Rightarrow> Throws ZodError
         | Some registrationData \<Rightarrow>
             if f_getEvent F then Throws (StorageError GetEvent)
             else (case getEvent d eid of
               None \<Rightarrow> Answers (Message 404 ''Event not found'')
             | Some ev \<Rightarrow>
                 if remainingSeats ev \<le> 0
                   then Answers (Message 400 ''No seats available for this event'')
                 else if now > cutoffTime zone ev
                   then Answers (Message 400 ''Registration deadline has passed'')
                 else
                   let allowed = (if allowedRegistrants ev = [] then ''attendee''
                                  else allowedRegistrants ev)
                   in if allowed = ''attendee'' \<and> isParentRegistration
                        then Answers (Message 400
                               ''This event is only open to children (attendees)'')
                      else if allowed = ''user'' \<and> isChildRegistration
                        then Answers (Message 400
                               ''This event is only open to parents (users)'')
                      else (case checkRegistrant F d userId eid registrationData
                                   isChildRegistration of
                        Throws e \<Rightarrow> Throws e
                      | Answers rejection \<Rightarrow> Answers rejection
                      | Continues u \<Rightarrow> Continues (ev, registrationData))))"

text \<open>
  The role the route reads for a parent registration: from the users table for a Replit
  session (undefined when no row has that Replit id), from the session for the others.
\<close>

definition userRole :: "db \<Rightarrow> principal \<Rightarrow> string option" where
  "userRole d u = (case u of ReplitUser sub \<Rightarrow> map_option role (getUserByReplitId d sub)
                           | LocalUser uid r \<Rightarrow> Some r)"

text \<open>Lines 558 to 580: the seat update that follows the insert.\<close>

definition updateSeatsAfterInsert ::
    "faults \<Rightarrow> principal \<Rightarrow> string \<Rightarrow> bool \<Rightarrow> db \<Rightarrow> error + db" where
  "updateSeatsAfterInsert F u eid isChildRegistration d =
     (if isChildRegistration then
        (if f_updateEventSeats F then Inl (StorageError UpdateEventSeats)
         else Inr (snd (updateEventSeats d eid (- 1))))
      else
        (if (case u of ReplitUser sub \<Rightarrow> f_getUserByReplitId F | LocalUser uid r \<Rightarrow> False)
         then Inl (StorageError GetUserByReplitId)
         else if userRole d u \<noteq> Some ''admin'' \<and> userRole d u \<noteq> Some ''staff'' then
           (if f_updateEventSeats F then Inl (StorageError UpdateEventSeats)
            else Inr (snd (updateEventSeats d eid (- 1))))
         else Inr d))"

text \<open>
  Lines 542 to 582: the costs, the insert of the registration, the seat update and the
  answer 201. The result is what this stretch throws or answers, and the database it
  leaves.
\<close>

definition register_insert ::
    "faults \<Rightarrow> request \<Rightarrow> Event \<Rightarrow> InsertEventRegistration \<Rightarrow> db
     \<Rightarrow> (error + EventRegistration response) \<times> db" where
  "register_insert F req ev registrationData d =
     (let isChildRegistration = truthy (body_childId req);
          isParentRegistration = (\<not> truthy (body_childId req));
          creditsCost = creditsRequired ev;
          servicesCost = calcServicesCost ev (orElse (body_selectedServices req) []);
          registrationWithCosts = registrationData
            \<lparr>ins_childId := (if isParentRegistration then None
                             else ins_childId registrationData),
             ins_creditsCost := creditsCost,
             ins_servicesCost := servicesCost\<rparr>
      in if f_createEventRegistration F then (Inl (StorageError CreateEventRegistration), d)
         else (case createEventRegistration d registrationWithCosts of
                 None \<Rightarrow> (Inl (StorageError CreateEventRegistration), d)
               | Some (reg, d1) \<Rightarrow>
                   (case updateSeatsAfterInsert F (req_user req) (params_eventId req)
                           isChildRegistration d1 of
                      Inl e \<Rightarrow> (Inl e, d1)
                    | Inr d2 \<Rightarrow> (Inr (Json 201 reg), d2))))"

text \<open>
  \<^verbatim>\<open>POST /api/events/:eventId/register\<close>: the \<^verbatim>\<open>try\<close> block, which answers or
  throws, and the route with its \<^verbatim>\<open>catch\<close>, which answers 400 to a validation error
  and 500 to any other.
\<close>

definition register_try ::
    "TimeZone \<Rightarrow> faults \<Rightarrow> int \<Rightarrow> request \<Rightarrow> db
     \<Rightarrow> (error + EventRegistration response) \<times> db" where
  "register_try zone F now req d =
     (case register_checks zone F now req d of
        Throws e \<Rightarrow> (Inl e, d)
      | Answers rejection \<Rightarrow> (Inr rejection, d)
      | Continues (ev, registrationData) \<Rightarrow> register_insert F req ev registrationData d)"

definition register_route ::
    "TimeZone \<Rightarrow> faults \<Rightarrow> int \<Rightarrow> request \<Rightarrow> db \<Rightarrow> EventRegistration response \<times> db" where
  "register_route zone F now req d =
     (case register_try zone F now req d of
        (Inr answer, d') \<Rightarrow> (answer, d')
      | (Inl ZodError, d') \<Rightarrow> (Message 400 ''Invalid registration data'', d')
      | (Inl (StorageError c), d') \<Rightarrow> (Message 500 ''Failed to register for event'', d'))"

text \<open>
  \<^verbatim>\<open>PUT /api/admin/events/:id/status\<close> passes \<^verbatim>\<open>req.body.status\<close> to the storage
  as it is; \<^verbatim>\<open>PUT /api/admin/events/:id\<close> converts five fields of the body with
  \<^verbatim>\<open>Number\<close> and \<^verbatim>\<open>new Date\<close>, defaults the extra services to the empty list and
  passes the rest through. The flag says whether the storage call throws.
\<close>

definition put_status_route :: "bool \<Rightarrow> string \<Rightarrow> string \<Rightarrow> db \<Rightarrow> Event response \<times> db" where
  "put_status_route throws eid st d =
     (if throws then (Message 500 ''Failed to update event status'', d)
      else (case updateEventStatus d eid st of
              (None, d') \<Rightarrow> (Message 404 ''Event not found'', d')
            | (Some updatedEvent, d') \<Rightarrow> (Json 200 updatedEvent, d')))"

record EventForm =
  b_startTime :: int
  b_maxSeats :: int
  b_remainingSeats :: int
  b_creditsRequired :: int
  b_cutoffHours :: int
  b_extraServices :: "ExtraService list option"
  b_allowedRegistrants :: "string option"
  b_status :: "string option"
  b_deleted :: "bool option"

definition put_event_route :: "bool \<Rightarrow> string \<Rightarrow> EventForm \<Rightarrow> db \<Rightarrow> Event response \<times> db" where
  "put_event_route throws eid eventData d =
     (let processedEventData =
            \<lparr>u_startTime = Some (b_startTime eventData),
             u_maxSeats = Some (b_maxSeats eventData),
             u_remainingSeats = Some (b_remainingSeats eventData),
             u_creditsRequired = Some (b_creditsRequired eventData),
             u_cutoffHours = Some (b_cutoffHours eventData),
             u_extraServices = Some (orElse (b_extraServices eventData) []),
             u_allowedRegistrants = b_allowedRegistrants eventData,
             u_status = b_status eventData,
             u_deleted = b_deleted eventData\<rparr>
      in if throws then (Message 500 ''Failed to update event'', d)
         else (case updateEvent d eid processedEventData of
                 (None, d') \<Rightarrow> (Message 404 ''Event not found'', d')
               | (Some updatedEvent, d') \<Rightarrow> (Json 200 updatedEvent, d')))"

text \<open>
  A history of the operations that write the seat counters: registrations, admin edits
  and seat-delta updates, applied one after the other.
\<close>

datatype operation =
    Register TimeZone faults int request
  | AdminEdit bool string EventForm
  | SeatsChange string int

fun apply_operation :: "operation \<Rightarrow> db \<Rightarrow> db" where
  "apply_operation (Register zone F now req) d = snd (register_route zone F now req d)"
| "apply_operation (AdminEdit throws eid form) d = snd (put_event_route throws eid form d)"
| "apply_operation (SeatsChange eid n) d = snd (updateEventSeats d eid n)"

fun run :: "operation list \<Rightarrow> db \<Rightarrow> db" where
  "run [] d = d"
| "run (op # ops) d = run ops (apply_operation op d)"

text \<open>The event invariant, for every row of the events table.\<close>

definition seats_ok :: "db \<Rightarrow> bool" where
  "seats_ok d = list_all (\<lambda>ev. 0 \<le> remainingSeats ev \<and> remainingSeats ev \<le> maxSeats ev) (events d)"

text \<open>Operations that keep to the invariant by what they write.\<close>

fun keeps_seats :: "db \<Rightarrow> operation \<Rightarrow> bool" where
  "keeps_seats d (Register zone F now req) = True"
| "keeps_seats d (AdminEdit throws eid form) =
     (0 \<le> b_remainingSeats form \<and> b_remainingSeats form \<le> b_maxSeats form)"
| "keeps_seats d (SeatsChange eid n) =
     list_all (\<lambda>ev. ev_id ev = eid \<longrightarrow>
                 0 \<le> remainingSeats ev + n \<and> remainingSeats ev + n \<le> maxSeats ev) (events d)"

fun keep_seats_all :: "operation list \<Rightarrow> db \<Rightarrow> bool" where
  "keep_seats_all [] d = True"
| "keep_seats_all (op # ops) d = (keeps_seats d op \<and> keep_seats_all ops (apply_operation op d))"

section \<open>Lemmas on JavaScript numbers\<close>

lemma floor_log2_lower: "0 < x \<Longrightarrow> 2 powi floor_log2 x \<le> x"
proof (cases "1 \<le> x")
  case True
  then have pos: "0 < \<lfloor>x\<rfloor>" by simp
  from bitlen_bounds [OF pos] have "2 ^ nat (bitlen \<lfloor>x\<rfloor> - 1) \<le> \<lfloor>x\<rfloor>" by simp
  then have "(of_int (2 ^ nat (bitlen \<lfloor>x\<rfloor> - 1)) :: rat) \<le> of_int \<lfloor>x\<rfloor>"
    by (simp only: of_int_le_iff)
  also have "\<dots> \<le> x" by simp
  finally have "(2 :: rat) ^ nat (bitlen \<lfloor>x\<rfloor> - 1) \<le> x" by simp
  moreover have "0 \<le> bitlen \<lfloor>x\<rfloor> - 1"
    using pos by (simp add: bitlen_alt_def)
  ultimately show ?thesis using True
    by (simp add: floor_log2_def power_int_nonneg_exp)
next
  case False
  assume "0 < x"
  with False have y: "1 < 1 / x" by simp
  define c where "c = \<lceil>1 / x\<rceil> - 1"
  have cpos: "0 < c" using y unfolding c_def by linarith
  from bitlen_bounds [OF cpos] have "c < 2 ^ nat (bitlen c)" by simp
  then have "c + 1 \<le> 2 ^ nat (bitlen c)" by simp
  then have "(of_int (c + 1) :: rat) \<le> of_int (2 ^ nat (bitlen c))"
    by (simp only: of_int_le_iff)
  moreover have "1 / x \<le> of_int (c + 1)" unfolding c_def by simp
  ultimately have "1 / x \<le> 2 ^ nat (bitlen c)" by simp
  then have "1 / 2 ^ nat (bitlen c) \<le> x"
    using \<open>0 < x\<close> by (simp add: field_simps)
  moreover have "(2 :: rat) powi (- bitlen c) = 1 / 2 ^ nat (bitlen c)"
    using bitlen_nonneg [of c] by (simp add: power_int_minus_divide power_int_nonneg_exp)
  ultimately show ?thesis using False
    by (simp add: floor_log2_def c_def)
qed

lemma floor_log2_upper: "0 < x \<Longrightarrow> x < 2 powi (floor_log2 x + 1)"
proof (cases "1 \<le> x")
  case True
  then have pos: "0 < \<lfloor>x\<rfloor>" by simp
  from bitlen_bounds [OF pos] have "\<lfloor>x\<rfloor> < 2 ^ nat (bitlen \<lfloor>x\<rfloor>)" by simp
  then have "\<lfloor>x\<rfloor> + 1 \<le> 2 ^ nat (bitlen \<lfloor>x\<rfloor>)" by simp
  then have "(of_int (\<lfloor>x\<rfloor> + 1) :: rat) \<le> of_int (2 ^ nat (bitlen \<lfloor>x\<rfloor>))"
    by (simp only: of_int_le_iff)
  moreover have "x < of_int (\<lfloor>x\<rfloor> + 1)" by linarith
  ultimately have "x < 2 ^ nat (bitlen \<lfloor>x\<rfloor>)" by simp
  then show ?thesis using True bitlen_nonneg [of "\<lfloor>x\<rfloor>"]
    by (simp add: floor_log2_def power_int_nonneg_exp)
next
  case False
  assume "0 < x"
  with False have y: "1 < 1 / x" by simp
  define c where "c = \<lceil>1 / x\<rceil> - 1"
  have cpos: "0 < c" using y unfolding c_def by linarith
  have b1: "1 \<le> bitlen c" using cpos by (simp add: bitlen_alt_def)
  from bitlen_bounds [OF cpos] have "2 ^ nat (bitlen c - 1) \<le> c" by simp
  then have "(2 :: rat) ^ nat (bitlen c - 1) \<le> of_int c"
    by (metis of_int_le_iff of_int_numeral of_int_power)
  moreover have "of_int c < 1 / x" unfolding c_def by linarith
  ultimately have "2 ^ nat (bitlen c - 1) < 1 / x" by linarith
  then have "x < 1 / 2 ^ nat (bitlen c - 1)"
    using \<open>0 < x\<close> by (simp add: field_simps)
  moreover have "(2 :: rat) powi (- bitlen c + 1) = 1 / 2 ^ nat (bitlen c - 1)"
  proof -
    have "(2 :: rat) powi (- bitlen c + 1) = 2 powi (- (bitlen c - 1))" by simp
    also have "\<dots> = 1 / 2 powi (bitlen c - 1)" by (rule power_int_minus_divide)
    also have "\<dots> = 1 / 2 ^ nat (bitlen c - 1)" using b1 by (simp add: power_int_nonneg_exp)
    finally show ?thesis .
  qed
  ultimately show ?thesis using False
    by (simp add: floor_log2_def c_def)
qed

lemma round_half_even_of_int [simp]: "round_half_even (of_int n) = n"
  by (simp add: round_half_even_def)

lemma round_half_even_ge: "of_int n \<le> q \<Longrightarrow> n \<le> round_half_even q"
  unfolding round_half_even_def Let_def by (auto simp: le_floor_iff) linarith+

lemma round_half_even_le: "q \<le> of_int n \<Longrightarrow> round_half_even q \<le> n"
  unfolding round_half_even_def Let_def by (auto split: if_splits) linarith+

lemma floor_log2_less: "0 < x \<Longrightarrow> x < 2 powi (k + 1) \<Longrightarrow> floor_log2 x \<le> k"
proof -
  assume "0 < x" and "x < 2 powi (k + 1)"
  with floor_log2_lower [of x] have "(2 :: rat) powi floor_log2 x < 2 powi (k + 1)" by linarith
  then have "floor_log2 x < k + 1"
    by (metis less_le_not_le not_le_imp_less one_less_numeral_iff power_int_increasing semiring_norm(76) less_imp_le)
  then show ?thesis by simp
qed

lemma round64_representable:
  assumes "m \<noteq> 0" and "\<bar>m\<bar> < 2 ^ 53" and "- 1074 \<le> e"
      and "\<bar>of_int m * 2 powi e :: rat\<bar> < 2 ^ 1024"
  shows "round64 (of_int m * 2 powi e) = Finite (of_int m * 2 powi e)"
proof -
  define x :: rat where "x = of_int m * 2 powi e"
  have x0: "x \<noteq> 0" using assms(1) by (simp add: x_def)
  have absx: "\<bar>x\<bar> = of_int \<bar>m\<bar> * 2 powi e"
    by (simp add: x_def abs_mult)
  have "(of_int \<bar>m\<bar> :: rat) < of_int (2 ^ 53)"
    using assms(2) by (simp only: of_int_less_iff)
  then have "(of_int \<bar>m\<bar> :: rat) < 2 ^ 53" by simp
  then have "\<bar>x\<bar> < 2 ^ 53 * 2 powi e"
    unfolding absx by (simp add: mult_strict_right_mono)
  also have "(2 :: rat) ^ 53 * 2 powi e = 2 powi (e + 52 + 1)"
    by (simp add: power_int_add)
  finally have "floor_log2 \<bar>x\<bar> \<le> e + 52"
    using x0 by (intro floor_log2_less) simp_all
  define e' where "e' = max (floor_log2 \<bar>x\<bar> - 52) (- 1074)"
  have le: "e' \<le> e" using \<open>floor_log2 \<bar>x\<bar> \<le> e + 52\<close> assms(3) by (simp add: e'_def)
  have "(2 :: rat) powi e = 2 powi (e - e') * 2 powi e'"
    by (simp flip: power_int_add)
  also have "(2 :: rat) powi (e - e') = of_int (2 ^ nat (e - e'))"
    using le by (simp add: power_int_nonneg_exp)
  finally have split: "(2 :: rat) powi e = of_int (2 ^ nat (e - e')) * 2 powi e'" .
  have "x / 2 powi e' = of_int (m * 2 ^ nat (e - e'))"
    by (simp add: x_def split)
  then have "round_half_even (x / 2 powi e') = m * 2 ^ nat (e - e')"
    by (simp only: round_half_even_of_int)
  then have "of_int (round_half_even (x / 2 powi e')) * 2 powi e' = x"
    by (simp add: x_def split)
  then show ?thesis
    using x0 assms(4) unfolding round64_def x_def [symmetric] e'_def [symmetric] Let_def
    by simp
qed

lemma round64_idem:
  assumes "round64 x = Finite y"
  shows "round64 y = Finite y"
proof (cases "x = 0")
  case True
  with assms show ?thesis by (simp add: round64_def)
next
  case False
  define e where "e = max (floor_log2 \<bar>x\<bar> - 52) (- 1074)"
  define m where "m = round_half_even (x / 2 powi e)"
  from assms False have y: "y = of_int m * 2 powi e" and fin: "\<bar>y\<bar> < 2 ^ 1024"
    unfolding round64_def e_def [symmetric] Let_def m_def [symmetric]
    by (auto split: if_splits)
  have e_low: "- 1074 \<le> e" by (simp add: e_def)
  have "\<bar>x\<bar> < 2 powi (floor_log2 \<bar>x\<bar> + 1)"
    using False by (intro floor_log2_upper) simp
  also have "(2 :: rat) powi (floor_log2 \<bar>x\<bar> + 1) \<le> 2 powi (e + 53)"
    by (intro power_int_increasing) (simp_all add: e_def)
  also have "(2 :: rat) powi (e + 53) = 2 ^ 53 * 2 powi e"
    by (simp add: power_int_add)
  finally have "\<bar>x\<bar> / 2 powi e < 2 ^ 53"
    by (simp add: field_simps)
  then have "\<bar>x / 2 powi e\<bar> < 2 ^ 53" by (simp add: abs_divide)
  then have "x / 2 powi e \<le> 2 ^ 53" and "- (2 ^ 53) \<le> x / 2 powi e"
    by linarith+
  then have up: "x / 2 powi e \<le> of_int (2 ^ 53)" and lo: "of_int (- (2 ^ 53)) \<le> x / 2 powi e"
    by simp_all
  have "m \<le> 2 ^ 53" unfolding m_def by (rule round_half_even_le [OF up])
  moreover have "- (2 ^ 53) \<le> m" unfolding m_def by (rule round_half_even_ge [OF lo])
  ultimately have "m \<le> 2 ^ 53" and "- (2 ^ 53) \<le> m" by simp_all
  then consider "m = 0" | "m \<noteq> 0" "\<bar>m\<bar> < 2 ^ 53" | "m = 2 ^ 53" | "m = - (2 ^ 53)"
    by fastforce
  then show ?thesis
  proof cases
    case 1
    then show ?thesis by (simp add: y round64_def)
  next
    case 2
    then show ?thesis using round64_representable [of m e] e_low fin by (simp add: y)
  next
    case 3
    have eq: "y = of_int (2 ^ 52) * 2 powi (e + 1)"
      by (simp add: y 3 power_int_add)
    show ?thesis
      using round64_representable [of "2 ^ 52" "e + 1"] e_low fin unfolding eq by simp
  next
    case 4
    have eq: "y = of_int (- (2 ^ 52)) * 2 powi (e + 1)"
      by (simp add: y 4 power_int_add)
    show ?thesis
      using round64_representable [of "- (2 ^ 52)" "e + 1"] e_low fin unfolding eq by simp
  qed
qed

lemma round64_safe_integer:
  assumes "\<bar>n\<bar> < 2 ^ 53"
  shows "round64 (of_int n) = Finite (of_int n)"
proof (cases "n = 0")
  case True
  then show ?thesis by (simp add: round64_def)
next
  case False
  have "(of_int \<bar>n\<bar> :: rat) < of_int (2 ^ 53)"
    using assms by (simp only: of_int_less_iff)
  then have "\<bar>of_int n :: rat\<bar> < 2 ^ 1024" by simp
  then show ?thesis
    using round64_representable [of n 0] False assms by simp
qed

lemma is_double_round64: "is_double (round64 x)"
  by (cases "round64 x") (auto simp: is_double_def dest: round64_idem)

lemma is_double_js_add: "is_double (js_add a b)"
  by (cases a; cases b) (simp_all add: is_double_round64, simp_all add: is_double_def)

lemma is_double_zero: "is_double (Finite 0)"
  by (simp add: is_double_def round64_def)

lemma js_add_zero: "is_double t \<Longrightarrow> js_add t (Finite 0) = t"
  by (cases t) (simp_all add: is_double_def)

lemma calcServicesCost_fold:
  assumes "is_double t"
  shows "foldl (\<lambda>total serviceIndex.
              js_add total (case js_index (extraServices ev) serviceIndex of
                              Some service \<Rightarrow> priceInCents service
                            | None \<Rightarrow> Finite 0)) t sel
         = foldl js_add t (map priceInCents (selected_in_range ev sel))"
  using assms
proof (induction sel arbitrary: t)
  case Nil
  then show ?case by (simp add: selected_in_range_def)
next
  case (Cons i sel)
  show ?case
  proof (cases "in_range ev i")
    case True
    then have idx: "js_index (extraServices ev) i = Some (extraServices ev ! nat i)"
      by (simp add: js_index_def in_range_def)
    show ?thesis
      using Cons.IH [OF is_double_js_add] True
      by (simp add: idx selected_in_range_def)
  next
    case False
    then have idx: "js_index (extraServices ev) i = None"
      by (simp add: js_index_def in_range_def)
    show ?thesis
      using Cons.IH [OF Cons.prems] False Cons.prems
      by (simp add: idx selected_in_range_def js_add_zero)
  qed
qed

lemma calcServicesCost_in_range:
  "calcServicesCost ev sel = foldl js_add (Finite 0) (map priceInCents (selected_in_range ev sel))"
  unfolding calcServicesCost_def by (rule calcServicesCost_fold [OF is_double_zero])

lemma calcServicesCost_same_in_range:
  "filter (in_range ev) sel' = filter (in_range ev) sel \<Longrightarrow>
     calcServicesCost ev sel' = calcServicesCost ev sel"
  by (simp add: calcServicesCost_in_range selected_in_range_def)

lemma foldl_js_add_safe:
  "safe_totals a cs \<Longrightarrow>
     foldl js_add (Finite (of_int a)) (map (\<lambda>c. Finite (of_int c)) cs)
     = Finite (of_int (a + sum_list cs))"
proof (induction cs arbitrary: a)
  case Nil
  then show ?case by simp
next
  case (Cons c cs)
  then have small: "\<bar>a + c\<bar> < 2 ^ 53" and rest: "safe_totals (a + c) cs" by simp_all
  from small have "round64 (of_int (a + c)) = Finite (of_int (a + c))"
    by (rule round64_safe_integer)
  then have "js_add (Finite (of_int a)) (Finite (of_int c)) = Finite (of_int (a + c))"
    by simp
  with Cons.IH [OF rest] show ?case by (simp add: add.assoc)
qed

lemma pg_integer_of_int: "pg_integer n = Some k \<Longrightarrow> n = Finite (of_int k)"
  by (auto simp: pg_integer_def split: number.splits if_splits)

section \<open>Lemmas on dates\<close>

lemma time_fields:
  "Day t * 86400000 + HourFromTime t * 3600000 + MinFromTime t * 60000
     + SecFromTime t * 1000 + msFromTime t = t"
proof -
  have a: "t mod 86400000 = 3600000 * (t div 3600000 mod 24) + t mod 3600000"
    using zmod_zmult2_eq [of 24 t 3600000] by simp
  have b: "t mod 3600000 = 60000 * (t div 60000 mod 60) + t mod 60000"
    using zmod_zmult2_eq [of 60 t 60000] by simp
  have c: "t mod 60000 = 1000 * (t div 1000 mod 60) + t mod 1000"
    using zmod_zmult2_eq [of 60 t 1000] by simp
  have "t = 86400000 * (t div 86400000) + t mod 86400000" by simp
  with a b c show ?thesis
    unfolding Day_def HourFromTime_def MinFromTime_def SecFromTime_def msFromTime_def
    by linarith
qed

text \<open>
  Taking \<open>c\<close> hours off the local hours field moves the local time value back by
  \<open>c\<close> hours; the instant moves back by as much only where the two offsets agree.
\<close>

lemma setHours_back:
  "setHours zone t (getHours zone t - c) = UTC zone (LocalTime zone t - c * 3600000)"
proof -
  have "MakeDate (Day (LocalTime zone t))
          (MakeTime (HourFromTime (LocalTime zone t) - c) (MinFromTime (LocalTime zone t))
             (SecFromTime (LocalTime zone t)) (msFromTime (LocalTime zone t)))
        = LocalTime zone t - c * 3600000"
    using time_fields [of "LocalTime zone t"]
    by (simp add: MakeDate_def MakeTime_def algebra_simps)
  then show ?thesis
    by (simp add: setHours_def getHours_def Let_def)
qed

lemma cutoffTime_eq:
  "cutoffTime zone ev = UTC zone (LocalTime zone (startTime ev) - cutoffHours ev * 3600000)"
  by (simp add: cutoffTime_def setHours_back)

section \<open>Lemmas on the storage operations and the registration route\<close>

lemma find_map_same_key:
  assumes "\<And>x. key (f x) = key x"
  shows "find (\<lambda>x. key x = i) (map (\<lambda>x. if key x = i then f x else x) xs)
         = map_option f (find (\<lambda>x. key x = i) xs)"
  using assms by (induction xs) simp_all

lemma getEvent_updateEventSeats:
  "getEvent (snd (updateEventSeats d i n)) i
   = map_option (\<lambda>ev. ev\<lparr>remainingSeats := remainingSeats ev + n\<rparr>) (getEvent d i)"
  unfolding getEvent_def updateEventSeats_def Let_def
  using find_map_same_key [of ev_id "\<lambda>ev. ev\<lparr>remainingSeats := remainingSeats ev + n\<rparr>" i "events d"]
  by simp

lemma getEvent_add_registration [simp]:
  "getEvent (d\<lparr>eventRegistrations := rs\<rparr>) i = getEvent d i"
  by (simp add: getEvent_def)

lemma userRole_add_registration [simp]:
  "userRole (d\<lparr>eventRegistrations := rs\<rparr>) u = userRole d u"
  by (simp add: userRole_def getUserByReplitId_def split: principal.splits)

lemma createEventRegistration_Some:
  "createEventRegistration d ins = Some (reg, d1) \<Longrightarrow>
     d1 = d\<lparr>eventRegistrations := eventRegistrations d @ [reg]\<rparr>
     \<and> creditsCost reg = ins_creditsCost ins \<and> childId reg = ins_childId ins
     \<and> pg_integer (ins_servicesCost ins) = Some (servicesCost reg)"
  by (auto simp: createEventRegistration_def Let_def split: option.splits if_splits)

lemma updateSeatsAfterInsert_Inr:
  "updateSeatsAfterInsert F u i b d = Inr d2 \<Longrightarrow>
     d2 = d \<or> d2 = snd (updateEventSeats d i (- 1))"
  by (auto simp: updateSeatsAfterInsert_def split: if_splits)

lemma updateSeatsAfterInsert_Inl:
  "updateSeatsAfterInsert F u i b d = Inl e \<Longrightarrow>
     e = StorageError GetUserByReplitId \<or> e = StorageError UpdateEventSeats"
  by (auto simp: updateSeatsAfterInsert_def split: if_splits)

lemma checkRegistrant_Throws:
  "checkRegistrant F d u e rd b = Throws err \<Longrightarrow>
     err = StorageError IsChildRegisteredForEvent \<or> err = StorageError GetChild
     \<or> err = StorageError GetEventRegistrationsByParent"
  by (auto simp: checkRegistrant_def split: if_splits option.splits)

lemma checkRegistrant_Answers:
  "checkRegistrant F d u e rd b = Answers r \<Longrightarrow> \<exists>code msg. r = Message code msg"
  by (auto simp: checkRegistrant_def split: if_splits option.splits)

lemma register_checks_Throws:
  "register_checks zone F now req d = Throws err \<Longrightarrow>
     err \<noteq> StorageError CreateEventRegistration \<and> err \<noteq> StorageError GetUserByReplitId
     \<and> err \<noteq> StorageError UpdateEventSeats"
  by (auto simp: register_checks_def registrationSchema_parse_def Let_def
        dest!: checkRegistrant_Throws
        split: if_splits option.splits outcome.splits)

lemma register_checks_Answers:
  "register_checks zone F now req d = Answers r \<Longrightarrow> \<exists>code msg. r = Message code msg"
  by (auto simp: register_checks_def registrationSchema_parse_def Let_def
        dest!: checkRegistrant_Answers
        split: if_splits option.splits outcome.splits)

lemma register_checks_Continues:
  "register_checks zone F now req d = Continues (ev, rd) \<Longrightarrow>
     getEvent d (params_eventId req) = Some ev \<and> 0 < remainingSeats ev
     \<and> ins_childId rd = (if truthy (body_childId req) then body_childId req else None)"
  by (auto simp: register_checks_def registrationSchema_parse_def Let_def
        split: if_splits option.splits outcome.splits)

lemma register_insert_cases:
  "(register_insert F req ev rd d = (Inl (StorageError CreateEventRegistration), d))
   \<or> (\<exists>reg d1. d1 = d\<lparr>eventRegistrations := eventRegistrations d @ [reg]\<rparr>
        \<and> creditsCost reg = creditsRequired ev
        \<and> childId reg = (if truthy (body_childId req) then ins_childId rd else None)
        \<and> pg_integer (calcServicesCost ev (orElse (body_selectedServices req) []))
             = Some (servicesCost reg)
        \<and> ((\<exists>e. register_insert F req ev rd d = (Inl e, d1)
                \<and> updateSeatsAfterInsert F (req_user req) (params_eventId req)
                      (truthy (body_childId req)) d1 = Inl e)
           \<or> (\<exists>d2. register_insert F req ev rd d = (Inr (Json 201 reg), d2)
                \<and> updateSeatsAfterInsert F (req_user req) (params_eventId req)
                      (truthy (body_childId req)) d1 = Inr d2)))"
  by (auto simp: register_insert_def Let_def dest!: createEventRegistration_Some
        split: option.splits sum.splits prod.splits)

lemma snd_register_route [simp]:
  "snd (register_route zone F now req d) = snd (register_try zone F now req d)"
  by (simp add: register_route_def split: prod.splits sum.splits error.splits)

lemma fst_register_route_Json:
  "(fst (register_route zone F now req d) = Json c reg)
   = (fst (register_try zone F now req d) = Inr (Json c reg))"
  by (auto simp: register_route_def split: prod.splits sum.splits error.splits)

lemma register_route_Json:
  "(register_route zone F now req d = (Json c reg, d'))
   = (register_try zone F now req d = (Inr (Json c reg), d'))"
  by (auto simp: register_route_def split: prod.splits sum.splits error.splits)

lemma register_try_accepted:
  assumes "register_try zone F now req d = (Inr (Json c reg), d')"
  obtains ev rd where "register_checks zone F now req d = Continues (ev, rd)"
    and "register_insert F req ev rd d = (Inr (Json c reg), d')"
  using assms
  by (auto simp: register_try_def split: outcome.splits dest: register_checks_Answers)

lemma register_try_run:
  "(snd (register_try zone F now req d) = d
      \<and> (\<forall>c reg. fst (register_try zone F now req d) \<noteq> Inr (Json c reg))
      \<and> fst (register_try zone F now req d) \<noteq> Inl (StorageError GetUserByReplitId)
      \<and> fst (register_try zone F now req d) \<noteq> Inl (StorageError UpdateEventSeats))
   \<or> (\<exists>ev reg. getEvent d (params_eventId req) = Some ev \<and> 0 < remainingSeats ev
        \<and> eventRegistrations (snd (register_try zone F now req d))
            = eventRegistrations d @ [reg]
        \<and> ((\<exists>e. fst (register_try zone F now req d) = Inl e
               \<and> events (snd (register_try zone F now req d)) = events d)
           \<or> (fst (register_try zone F now req d) = Inr (Json 201 reg)
               \<and> (events (snd (register_try zone F now req d)) = events d
                   \<or> events (snd (register_try zone F now req d))
                       = map (\<lambda>e. if ev_id e = params_eventId req
                                    then e\<lparr>remainingSeats := remainingSeats e + (- 1)\<rparr> else e)
                             (events d)))))"
proof (cases "register_checks zone F now req d")
  case (Throws e)
  then show ?thesis
    using register_checks_Throws [OF Throws] by (auto simp: register_try_def)
next
  case (Answers r)
  then show ?thesis
    using register_checks_Answers [OF Answers] by (auto simp: register_try_def)
next
  case (Continues p)
  obtain ev rd where p: "p = (ev, rd)" by (cases p)
  from Continues have run_eq: "register_try zone F now req d = register_insert F req ev rd d"
    by (simp add: register_try_def p)
  from Continues have ev: "getEvent d (params_eventId req) = Some ev" "0 < remainingSeats ev"
    using register_checks_Continues [of zone F now req d ev rd] by (simp_all add: p)
  from register_insert_cases [of F req ev rd d] show ?thesis
  proof (elim disjE exE conjE)
    assume "register_insert F req ev rd d = (Inl (StorageError CreateEventRegistration), d)"
    then show ?thesis by (simp add: run_eq)
  next
    fix reg d1 e
    assume "d1 = d\<lparr>eventRegistrations := eventRegistrations d @ [reg]\<rparr>"
      and "register_insert F req ev rd d = (Inl e, d1)"
    then show ?thesis using ev by (auto simp: run_eq)
  next
    fix reg d1 d2
    assume d1: "d1 = d\<lparr>eventRegistrations := eventRegistrations d @ [reg]\<rparr>"
      and ins: "register_insert F req ev rd d = (Inr (Json 201 reg), d2)"
      and upd: "updateSeatsAfterInsert F (req_user req) (params_eventId req)
                  (truthy (body_childId req)) d1 = Inr d2"
    from updateSeatsAfterInsert_Inr [OF upd]
    have "eventRegistrations d2 = eventRegistrations d @ [reg]
          \<and> (events d2 = events d
              \<or> events d2 = map (\<lambda>e. if ev_id e = params_eventId req
                                    then e\<lparr>remainingSeats := remainingSeats e + (- 1)\<rparr> else e)
                             (events d))"
      by (auto simp: d1 updateEventSeats_def Let_def)
    then show ?thesis using ev ins by (auto simp: run_eq)
  qed
qed

lemma find_unique:
  assumes "distinct (map key xs)" and "find (\<lambda>x. key x = i) xs = Some y"
      and "x \<in> set xs" and "key x = i"
  shows "x = y"
proof -
  from assms(2) have "y \<in> set xs" and "key y = i"
    by (auto simp: find_Some_iff)
  with assms(1,3,4) show ?thesis
    by (metis distinct_map inj_on_def)
qed

lemma events_register_route:
  "events (snd (register_route zone F now req d)) = events d \<or>
   (\<exists>ev. getEvent d (params_eventId req) = Some ev \<and> 0 < remainingSeats ev \<and>
      events (snd (register_route zone F now req d))
        = map (\<lambda>e. if ev_id e = params_eventId req
                     then e\<lparr>remainingSeats := remainingSeats e + (- 1)\<rparr> else e) (events d))"
  using register_try_run [of zone F now req d] by auto

lemma seats_ok_register_route:
  assumes "distinct (map ev_id (events d))" and "seats_ok d"
  shows "seats_ok (snd (register_route zone F now req d))"
proof -
  from events_register_route [of zone F now req d] show ?thesis
  proof
    assume "events (snd (register_route zone F now req d)) = events d"
    with assms(2) show ?thesis by (simp add: seats_ok_def)
  next
    assume "\<exists>ev. getEvent d (params_eventId req) = Some ev \<and> 0 < remainingSeats ev \<and>
      events (snd (register_route zone F now req d))
        = map (\<lambda>e. if ev_id e = params_eventId req
                     then e\<lparr>remainingSeats := remainingSeats e + (- 1)\<rparr> else e) (events d)"
    then obtain ev where found: "find (\<lambda>e. ev_id e = params_eventId req) (events d) = Some ev"
      and pos: "0 < remainingSeats ev"
      and evs: "events (snd (register_route zone F now req d))
        = map (\<lambda>e. if ev_id e = params_eventId req
                     then e\<lparr>remainingSeats := remainingSeats e + (- 1)\<rparr> else e) (events d)"
      by (auto simp: getEvent_def)
    have "\<And>e. e \<in> set (events d) \<Longrightarrow> ev_id e = params_eventId req \<Longrightarrow> 0 < remainingSeats e"
      using find_unique [OF assms(1) found] pos by blast
    with assms(2) show ?thesis
      unfolding seats_ok_def evs by (auto simp: list_all_iff)
  qed
qed

lemma ids_apply_operation:
  "map ev_id (events (apply_operation op d)) = map ev_id (events d)"
proof (cases op)
  case (Register zone F now req)
  from events_register_route [of zone F now req d] show ?thesis
    unfolding Register by (auto simp: comp_def)
next
  case (AdminEdit throws eid form)
  then show ?thesis
    by (auto simp: put_event_route_def updateEvent_def Let_def setColumns_def comp_def
        split: option.splits)
next
  case (SeatsChange eid n)
  then show ?thesis by (auto simp: updateEventSeats_def Let_def comp_def)
qed

lemma seats_ok_apply_operation:
  assumes "distinct (map ev_id (events d))" and "seats_ok d" and "keeps_seats d op"
  shows "seats_ok (apply_operation op d)"
proof (cases op)
  case (Register zone F now req)
  with assms show ?thesis using seats_ok_register_route [of d zone F now req] by simp
next
  case (AdminEdit throws eid form)
  with assms show ?thesis
    by (auto simp: put_event_route_def updateEvent_def Let_def setColumns_def seats_ok_def
        list_all_iff orElse_def split: option.splits)
next
  case (SeatsChange eid n)
  with assms show ?thesis
    by (auto simp: updateEventSeats_def Let_def seats_ok_def list_all_iff)
qed

lemma register_route_Message:
  assumes "fst (register_route zone F now req d) = Message code msg"
  shows "\<forall>c reg. fst (register_try zone F now req d) \<noteq> Inr (Json c reg)"
  using assms
  by (auto simp: register_route_def split: prod.splits sum.splits error.splits)

lemma register_try_unchanged:
  assumes "\<forall>c reg. fst (register_try zone F now req d) \<noteq> Inr (Json c reg)"
      and "fst (register_try zone F now req d) \<noteq> Inl (StorageError GetUserByReplitId)"
      and "fst (register_try zone F now req d) \<noteq> Inl (StorageError UpdateEventSeats)"
  shows "snd (register_try zone F now req d) = d"
proof (cases "register_checks zone F now req d")
  case (Throws e)
  then show ?thesis by (simp add: register_try_def)
next
  case (Answers r)
  then show ?thesis by (simp add: register_try_def)
next
  case (Continues p)
  obtain ev rd where p: "p = (ev, rd)" by (cases p)
  from Continues have run_eq: "register_try zone F now req d = register_insert F req ev rd d"
    by (simp add: register_try_def p)
  from register_insert_cases [of F req ev rd d] show ?thesis
  proof (elim disjE exE conjE)
    assume "register_insert F req ev rd d = (Inl (StorageError CreateEventRegistration), d)"
    then show ?thesis by (simp add: run_eq)
  next
    fix reg d1 e
    assume "register_insert F req ev rd d = (Inl e, d1)"
      and "updateSeatsAfterInsert F (req_user req) (params_eventId req)
             (truthy (body_childId req)) d1 = Inl e"
    then show ?thesis
      using assms(2,3) updateSeatsAfterInsert_Inl [of F "req_user req" "params_eventId req"
        "truthy (body_childId req)" d1 e]
      by (auto simp: run_eq)
  next
    fix reg d1 d2
    assume "register_insert F req ev rd d = (Inr (Json 201 reg), d2)"
    then show ?thesis using assms(1) by (auto simp: run_eq)
  qed
qed


lemma register_checks_selected:
  assumes "register_checks zone F now req d = Continues (ev, rd)"
  shows "register_checks zone F now (req\<lparr>body_selectedServices := s\<rparr>) d
         = Continues (ev, rd\<lparr>ins_selectedServices := orElse s []\<rparr>)"
  using assms
  by (auto simp: register_checks_def registrationSchema_parse_def Let_def checkRegistrant_def
        split: if_splits option.splits outcome.splits)

lemma register_insert_selected:
  assumes "register_insert F req ev rd d = (Inr (Json 201 reg), d2)"
      and "calcServicesCost ev (orElse s []) = calcServicesCost ev (orElse (body_selectedServices req) [])"
  shows "\<exists>reg' d2'. register_insert F (req\<lparr>body_selectedServices := s\<rparr>) ev
                       (rd\<lparr>ins_selectedServices := x\<rparr>) d = (Inr (Json 201 reg'), d2')"
  using assms
  by (auto simp: register_insert_def Let_def createEventRegistration_def
        updateSeatsAfterInsert_def userRole_def getUserByReplitId_def
        split: option.splits sum.splits prod.splits if_splits principal.splits)

lemma details_row_child:
  "row \<in> set (getEventRegistrationsWithDetailsForParent d p) \<Longrightarrow>
     childId (row_registration row) \<noteq> None"
  unfolding getEventRegistrationsWithDetailsForParent_def
  by (auto split: if_splits)

lemma plain_listing_member:
  "reg \<in> set (eventRegistrations d) \<Longrightarrow> parentId reg = p \<Longrightarrow>
     reg \<in> set (getEventRegistrationsByParent d p)"
  by (simp add: getEventRegistrationsByParent_def)

text \<open>Floors and ceilings of quotients of numerals, for evaluation.\<close>

lemma floor_rat_numeral_div [simp]:
  "\<lfloor>numeral a / numeral b :: rat\<rfloor> = numeral a div numeral b"
  using floor_divide_of_int_eq [where ?'a = rat, of "numeral a" "numeral b"] by simp

lemma floor_rat_neg_numeral_div [simp]:
  "\<lfloor>- (numeral a / numeral b) :: rat\<rfloor> = - numeral a div numeral b"
  using floor_divide_of_int_eq [where ?'a = rat, of "- numeral a" "numeral b"] by simp

lemma ceiling_rat_numeral_div [simp]:
  "\<lceil>numeral a / numeral b :: rat\<rceil> = - (- numeral a div numeral b)"
  by (simp add: ceiling_def)

lemma ceiling_rat_neg_numeral_div [simp]:
  "\<lceil>- (numeral a / numeral b) :: rat\<rceil> = - (numeral a div numeral b)"
  by (simp add: ceiling_def)

lemmas number_eval =
  priceInCents_def JSON_number_def round64_def floor_log2_def compute_bitlen
  round_half_even_def Let_def

lemmas storage_defs =
  getEvent_def getChild_def getUserByReplitId_def updateEventStatus_def updateEventSeats_def
  updateEvent_def setColumns_def orElse_def createEventRegistration_def
  getEventRegistrationsByParent_def isChildRegisteredForEvent_def pg_integer_def int32_def

lemmas route_defs =
  register_route_def register_try_def register_checks_def register_insert_def
  registrationSchema_parse_def checkRegistrant_def updateSeatsAfterInsert_def
  userRole_def truthy_def no_faults_def put_status_route_def put_event_route_def Let_def
  cutoffTime_eq UTC_def LocalTime_def calcServicesCost_in_range selected_in_range_def
  in_range_def

section \<open>C1: the seat invariant\<close>

text \<open>
  C1, as the spec states it, fails: the storage applies a seat delta and an admin edit as
  they come, with no bound check. On an event with no seat left, a seat delta of \<open>-1\<close>
  leaves \<open>-1\<close> remaining seats; an admin edit submitting 10 remaining seats for 5 seats
  in all is stored as submitted.
\<close>

theorem run_breaks_seats_ok:
  "seats_ok
    \<lparr>events = [\<lparr>ev_id = ''e1'', startTime = 172800000, maxSeats = 5, remainingSeats = 0,
      creditsRequired = 3, cutoffHours = 12, extraServices = [],
      allowedRegistrants = ''attendee'', status = ''open'', deleted = False\<rparr>],
     attendee = [\<lparr>child_id = ''c1'', child_parentId = ''p1''\<rparr>,
       \<lparr>child_id = ''c2'', child_parentId = ''s1''\<rparr>],
     users = [\<lparr>user_id = ''p1'', replitId = None, role = ''user''\<rparr>,
       \<lparr>user_id = ''a1'', replitId = None, role = ''admin''\<rparr>,
       \<lparr>user_id = ''s1'', replitId = None, role = ''staff''\<rparr>],
     eventRegistrations = []\<rparr>
   \<and> \<not> seats_ok (run [SeatsChange ''e1'' (- 1)]
    \<lparr>events = [\<lparr>ev_id = ''e1'', startTime = 172800000, maxSeats = 5, remainingSeats = 0,
      creditsRequired = 3, cutoffHours = 12, extraServices = [],
      allowedRegistrants = ''attendee'', status = ''open'', deleted = False\<rparr>],
     attendee = [\<lparr>child_id = ''c1'', child_parentId = ''p1''\<rparr>,
       \<lparr>child_id = ''c2'', child_parentId = ''s1''\<rparr>],
     users = [\<lparr>user_id = ''p1'', replitId = None, role = ''user''\<rparr>,
       \<lparr>user_id = ''a1'', replitId = None, role = ''admin''\<rparr>,
       \<lparr>user_id = ''s1'', replitId = None, role = ''staff''\<rparr>],
     eventRegistrations = []\<rparr>)
   \<and> \<not> seats_ok (run [AdminEdit False ''e1''
      \<lparr>b_startTime = 172800000, b_maxSeats = 5, b_remainingSeats = 10,
      b_creditsRequired = 3, b_cutoffHours = 12, b_extraServices = None,
      b_allowedRegistrants = None, b_status = None, b_deleted = None\<rparr>]
    \<lparr>events = [\<lparr>ev_id = ''e1'', startTime = 172800000, maxSeats = 5, remainingSeats = 0,
      creditsRequired = 3, cutoffHours = 12, extraServices = [],
      allowedRegistrants = ''attendee'', status = ''open'', deleted = False\<rparr>],
     attendee = [\<lparr>child_id = ''c1'', child_parentId = ''p1''\<rparr>,
       \<lparr>child_id = ''c2'', child_parentId = ''s1''\<rparr>],
     users = [\<lparr>user_id = ''p1'', replitId = None, role = ''user''\<rparr>,
       \<lparr>user_id = ''a1'', replitId = None, role = ''admin''\<rparr>,
       \<lparr>user_id = ''s1'', replitId = None, role = ''staff''\<rparr>],
     eventRegistrations = []\<rparr>)"
  by (simp add: seats_ok_def storage_defs route_defs)

text \<open>
  C1, amended. On an events table with unique ids, every history of operations keeps
  \<open>0 \<le> remainingSeats \<le> maxSeats\<close> for every event, provided each admin edit in it
  submits seats within these bounds and each seat delta leaves its event within them
  (\<open>keep_seats_all\<close>); a registration needs no proviso, whatever storage faults strike
  it: it takes a seat only from an event that has one left.
\<close>

theorem run_seats_ok:
  assumes "distinct (map ev_id (events d))" and "seats_ok d" and "keep_seats_all ops d"
  shows "seats_ok (run ops d)"
  using assms
proof (induction ops arbitrary: d)
  case Nil
  then show ?case by simp
next
  case (Cons op ops)
  have "distinct (map ev_id (events (apply_operation op d)))"
    using Cons.prems(1) by (simp add: ids_apply_operation)
  moreover have "seats_ok (apply_operation op d)"
    using Cons.prems by (simp add: seats_ok_apply_operation)
  ultimately show ?case
    using Cons.IH Cons.prems(3) by simp
qed

theorem run_seats_ok_witness:
  "seats_ok (run
   [Register \<lparr>offset_at_utc = (\<lambda>t. 0), offset_at_local = (\<lambda>t. 0)\<rparr>
      \<lparr>f_getEvent = False, f_isChildRegisteredForEvent = False,
      f_getChild = False, f_getEventRegistrationsByParent = False,
      f_createEventRegistration = False, f_getUserByReplitId = False,
      f_updateEventSeats = False\<rparr> 0
      \<lparr>req_user = LocalUser ''p1'' ''user'', params_eventId = ''e1'',
      body_childId = Some ''c1'', body_selectedServices = None\<rparr>,
    Register \<lparr>offset_at_utc = (\<lambda>t. 0), offset_at_local = (\<lambda>t. 0)\<rparr>
      \<lparr>f_getEvent = False, f_isChildRegisteredForEvent = False,
      f_getChild = False, f_getEventRegistrationsByParent = False,
      f_createEventRegistration = False, f_getUserByReplitId = False,
      f_updateEventSeats = False\<rparr> 0
      \<lparr>req_user = LocalUser ''p1'' ''user'', params_eventId = ''e1'',
      body_childId = None, body_selectedServices = None\<rparr>,
    SeatsChange ''e1'' 2,
    AdminEdit False ''e1''
      \<lparr>b_startTime = 172800000, b_maxSeats = 5, b_remainingSeats = 4,
      b_creditsRequired = 3, b_cutoffHours = 12, b_extraServices = None,
      b_allowedRegistrants = None, b_status = None, b_deleted = None\<rparr>]
    \<lparr>events = [\<lparr>ev_id = ''e1'', startTime = 172800000, maxSeats = 5, remainingSeats = 1,
      creditsRequired = 3, cutoffHours = 12, extraServices = [],
      allowedRegistrants = ''attendee'', status = ''open'', deleted = False\<rparr>],
     attendee = [\<lparr>child_id = ''c1'', child_parentId = ''p1''\<rparr>,
       \<lparr>child_id = ''c2'', child_parentId = ''s1''\<rparr>],
     users = [\<lparr>user_id = ''p1'', replitId = None, role = ''user''\<rparr>,
       \<lparr>user_id = ''a1'', replitId = None, role = ''admin''\<rparr>,
       \<lparr>user_id = ''s1'', replitId = None, role = ''staff''\<rparr>],
     eventRegistrations = []\<rparr>)"
  using run_seats_ok [of
    "\<lparr>events = [\<lparr>ev_id = ''e1'', startTime = 172800000, maxSeats = 5, remainingSeats = 1,
      creditsRequired = 3, cutoffHours = 12, extraServices = [],
      allowedRegistrants = ''attendee'', status = ''open'', deleted = False\<rparr>],
     attendee = [\<lparr>child_id = ''c1'', child_parentId = ''p1''\<rparr>,
       \<lparr>child_id = ''c2'', child_parentId = ''s1''\<rparr>],
     users = [\<lparr>user_id = ''p1'', replitId = None, role = ''user''\<rparr>,
       \<lparr>user_id = ''a1'', replitId = None, role = ''admin''\<rparr>,
       \<lparr>user_id = ''s1'', replitId = None, role = ''staff''\<rparr>],
     eventRegistrations = []\<rparr>"
   "[Register \<lparr>offset_at_utc = (\<lambda>t. 0), offset_at_local = (\<lambda>t. 0)\<rparr>
      \<lparr>f_getEvent = False, f_isChildRegisteredForEvent = False,
      f_getChild = False, f_getEventRegistrationsByParent = False,
      f_createEventRegistration = False, f_getUserByReplitId = False,
      f_updateEventSeats = False\<rparr> 0
      \<lparr>req_user = LocalUser ''p1'' ''user'', params_eventId = ''e1'',
      body_childId = Some ''c1'', body_selectedServices = None\<rparr>,
    Register \<lparr>offset_at_utc = (\<lambda>t. 0), offset_at_local = (\<lambda>t. 0)\<rparr>
      \<lparr>f_getEvent = False, f_isChildRegisteredForEvent = False,
      f_getChild = False, f_getEventRegistrationsByParent = False,
      f_createEventRegistration = False, f_getUserByReplitId = False,
      f_updateEventSeats = False\<rparr> 0
      \<lparr>req_user = LocalUser ''p1'' ''user'', params_eventId = ''e1'',
      body_childId = None, body_selectedServices = None\<rparr>,
    SeatsChange ''e1'' 2,
    AdminEdit False ''e1''
      \<lparr>b_startTime = 172800000, b_maxSeats = 5, b_remainingSeats = 4,
      b_creditsRequired = 3, b_cutoffHours = 12, b_extraServices = None,
      b_allowedRegistrants = None, b_status = None, b_deleted = None\<rparr>]"]
  by (simp add: seats_ok_def storage_defs route_defs)

section \<open>C2: the insert and the seat update\<close>

text \<open>
  C2, as the spec states it, fails: the route inserts the registration row with one
  statement and updates the seats with a later one, outside any transaction. When the
  seat update throws, the request is answered with status 500 and the row inserted before
  stays, with no seat taken.
\<close>

theorem register_route_row_without_seat:
  "fst (register_route \<lparr>offset_at_utc = (\<lambda>t. 0), offset_at_local = (\<lambda>t. 0)\<rparr>
      \<lparr>f_getEvent = False, f_isChildRegisteredForEvent = False,
      f_getChild = False, f_getEventRegistrationsByParent = False,
      f_createEventRegistration = False, f_getUserByReplitId = False,
      f_updateEventSeats = True\<rparr> 0
      \<lparr>req_user = LocalUser ''p1'' ''user'', params_eventId = ''e1'',
      body_childId = Some ''c1'', body_selectedServices = None\<rparr>
    \<lparr>events = [\<lparr>ev_id = ''e1'', startTime = 172800000, maxSeats = 5, remainingSeats = 5,
      creditsRequired = 3, cutoffHours = 12, extraServices = [],
      allowedRegistrants = ''attendee'', status = ''open'', deleted = False\<rparr>],
     attendee = [\<lparr>child_id = ''c1'', child_parentId = ''p1''\<rparr>,
       \<lparr>child_id = ''c2'', child_parentId = ''s1''\<rparr>],
     users = [\<lparr>user_id = ''p1'', replitId = None, role = ''user''\<rparr>,
       \<lparr>user_id = ''a1'', replitId = None, role = ''admin''\<rparr>,
       \<lparr>user_id = ''s1'', replitId = None, role = ''staff''\<rparr>],
     eventRegistrations = []\<rparr>) = Message 500 ''Failed to register for event''
   \<and> eventRegistrations (snd (register_route \<lparr>offset_at_utc = (\<lambda>t. 0), offset_at_local = (\<lambda>t. 0)\<rparr>
      \<lparr>f_getEvent = False, f_isChildRegisteredForEvent = False,
      f_getChild = False, f_getEventRegistrationsByParent = False,
      f_createEventRegistration = False, f_getUserByReplitId = False,
      f_updateEventSeats = True\<rparr> 0
      \<lparr>req_user = LocalUser ''p1'' ''user'', params_eventId = ''e1'',
      body_childId = Some ''c1'', body_selectedServices = None\<rparr>
    \<lparr>events = [\<lparr>ev_id = ''e1'', startTime = 172800000, maxSeats = 5, remainingSeats = 5,
      creditsRequired = 3, cutoffHours = 12, extraServices = [],
      allowedRegistrants = ''attendee'', status = ''open'', deleted = False\<rparr>],
     attendee = [\<lparr>child_id = ''c1'', child_parentId = ''p1''\<rparr>,
       \<lparr>child_id = ''c2'', child_parentId = ''s1''\<rparr>],
     users = [\<lparr>user_id = ''p1'', replitId = None, role = ''user''\<rparr>,
       \<lparr>user_id = ''a1'', replitId = None, role = ''admin''\<rparr>,
       \<lparr>user_id = ''s1'', replitId = None, role = ''staff''\<rparr>],
     eventRegistrations = []\<rparr>)) =
     [\<lparr>eventId = ''e1'', childId = Some ''c1'', parentId = ''p1'',
      selectedServices = [], creditsCost = 3, servicesCost = 0\<rparr>]
   \<and> map remainingSeats (events (snd (register_route \<lparr>offset_at_utc = (\<lambda>t. 0), offset_at_local = (\<lambda>t. 0)\<rparr>
      \<lparr>f_getEvent = False, f_isChildRegisteredForEvent = False,
      f_getChild = False, f_getEventRegistrationsByParent = False,
      f_createEventRegistration = False, f_getUserByReplitId = False,
      f_updateEventSeats = True\<rparr> 0
      \<lparr>req_user = LocalUser ''p1'' ''user'', params_eventId = ''e1'',
      body_childId = Some ''c1'', body_selectedServices = None\<rparr>
    \<lparr>events = [\<lparr>ev_id = ''e1'', startTime = 172800000, maxSeats = 5, remainingSeats = 5,
      creditsRequired = 3, cutoffHours = 12, extraServices = [],
      allowedRegistrants = ''attendee'', status = ''open'', deleted = False\<rparr>],
     attendee = [\<lparr>child_id = ''c1'', child_parentId = ''p1''\<rparr>,
       \<lparr>child_id = ''c2'', child_parentId = ''s1''\<rparr>],
     users = [\<lparr>user_id = ''p1'', replitId = None, role = ''user''\<rparr>,
       \<lparr>user_id = ''a1'', replitId = None, role = ''admin''\<rparr>,
       \<lparr>user_id = ''s1'', replitId = None, role = ''staff''\<rparr>],
     eventRegistrations = []\<rparr>))) = [5]"
  by (simp add: storage_defs route_defs)

text \<open>
  C2, amended. A seat is never taken without its registration row: the events table
  changes only in a run that is accepted and has added exactly the row it answers with.
  For every run in which the request is rejected or a storage step fails, the
  \<open>remainingSeats\<close> of every event is unchanged; and unless the step that fails is one
  of the two after the insert (the role lookup by Replit id, the seat update), the whole
  database is unchanged, the registration rows included. Only a failure of one of these
  two steps leaves the row inserted before it, with no seat taken.
\<close>

theorem register_route_atomicity:
  "(events (snd (register_route zone F now req d)) \<noteq> events d \<longrightarrow>
      (\<exists>reg. fst (register_route zone F now req d) = Json 201 reg
         \<and> eventRegistrations (snd (register_route zone F now req d))
             = eventRegistrations d @ [reg]))
   \<and> (\<forall>code msg. fst (register_route zone F now req d) = Message code msg \<longrightarrow>
        events (snd (register_route zone F now req d)) = events d
        \<and> (fst (register_try zone F now req d) \<noteq> Inl (StorageError GetUserByReplitId)
             \<and> fst (register_try zone F now req d) \<noteq> Inl (StorageError UpdateEventSeats) \<longrightarrow>
           snd (register_route zone F now req d) = d))"
proof (intro conjI impI allI)
  assume "events (snd (register_route zone F now req d)) \<noteq> events d"
  then show "\<exists>reg. fst (register_route zone F now req d) = Json 201 reg
         \<and> eventRegistrations (snd (register_route zone F now req d))
             = eventRegistrations d @ [reg]"
    using register_try_run [of zone F now req d]
    by (auto simp: fst_register_route_Json)
next
  fix code msg
  assume "fst (register_route zone F now req d) = Message code msg"
  then show "events (snd (register_route zone F now req d)) = events d"
    using register_try_run [of zone F now req d] register_route_Message [of zone F now req d]
    by auto
next
  fix code msg
  assume "fst (register_route zone F now req d) = Message code msg"
    and "fst (register_try zone F now req d) \<noteq> Inl (StorageError GetUserByReplitId)
         \<and> fst (register_try zone F now req d) \<noteq> Inl (StorageError UpdateEventSeats)"
  then show "snd (register_route zone F now req d) = d"
    using register_try_unchanged [of zone F now req d]
      register_route_Message [of zone F now req d code msg]
    by simp
qed

text \<open>
  The witness: a run whose event lookup throws (the flag of the seat update is set as
  well, and never consulted), and a run whose insert throws; both leave the database as
  it was.
\<close>

theorem register_route_atomicity_witness:
  "register_route \<lparr>offset_at_utc = (\<lambda>t. 0), offset_at_local = (\<lambda>t. 0)\<rparr>
      \<lparr>f_getEvent = True, f_isChildRegisteredForEvent = False,
      f_getChild = False, f_getEventRegistrationsByParent = False,
      f_createEventRegistration = False, f_getUserByReplitId = False,
      f_updateEventSeats = True\<rparr> 0
      \<lparr>req_user = LocalUser ''p1'' ''user'', params_eventId = ''e1'',
      body_childId = Some ''c1'', body_selectedServices = None\<rparr>
    \<lparr>events = [\<lparr>ev_id = ''e1'', startTime = 172800000, maxSeats = 5, remainingSeats = 5,
      creditsRequired = 3, cutoffHours = 12, extraServices = [],
      allowedRegistrants = ''attendee'', status = ''open'', deleted = False\<rparr>],
     attendee = [\<lparr>child_id = ''c1'', child_parentId = ''p1''\<rparr>,
       \<lparr>child_id = ''c2'', child_parentId = ''s1''\<rparr>],
     users = [\<lparr>user_id = ''p1'', replitId = None, role = ''user''\<rparr>,
       \<lparr>user_id = ''a1'', replitId = None, role = ''admin''\<rparr>,
       \<lparr>user_id = ''s1'', replitId = None, role = ''staff''\<rparr>],
     eventRegistrations = []\<rparr>
   = (Message 500 ''Failed to register for event'',
    \<lparr>events = [\<lparr>ev_id = ''e1'', startTime = 172800000, maxSeats = 5, remainingSeats = 5,
      creditsRequired = 3, cutoffHours = 12, extraServices = [],
      allowedRegistrants = ''attendee'', status = ''open'', deleted = False\<rparr>],
     attendee = [\<lparr>child_id = ''c1'', child_parentId = ''p1''\<rparr>,
       \<lparr>child_id = ''c2'', child_parentId = ''s1''\<rparr>],
     users = [\<lparr>user_id = ''p1'', replitId = None, role = ''user''\<rparr>,
       \<lparr>user_id = ''a1'', replitId = None, role = ''admin''\<rparr>,
       \<lparr>user_id = ''s1'', replitId = None, role = ''staff''\<rparr>],
     eventRegistrations = []\<rparr>)
   \<and> register_route \<lparr>offset_at_utc = (\<lambda>t. 0), offset_at_local = (\<lambda>t. 0)\<rparr>
      \<lparr>f_getEvent = False, f_isChildRegisteredForEvent = False,
      f_getChild = False, f_getEventRegistrationsByParent = False,
      f_createEventRegistration = True, f_getUserByReplitId = False,
      f_updateEventSeats = False\<rparr> 0
      \<lparr>req_user = LocalUser ''p1'' ''user'', params_eventId = ''e1'',
      body_childId = Some ''c1'', body_selectedServices = None\<rparr>
    \<lparr>events = [\<lparr>ev_id = ''e1'', startTime = 172800000, maxSeats = 5, remainingSeats = 5,
      creditsRequired = 3, cutoffHours = 12, extraServices = [],
      allowedRegistrants = ''attendee'', status = ''open'', deleted = False\<rparr>],
     attendee = [\<lparr>child_id = ''c1'', child_parentId = ''p1''\<rparr>,
       \<lparr>child_id = ''c2'', child_parentId = ''s1''\<rparr>],
     users = [\<lparr>user_id = ''p1'', replitId = None, role = ''user''\<rparr>,
       \<lparr>user_id = ''a1'', replitId = None, role = ''admin''\<rparr>,
       \<lparr>user_id = ''s1'', replitId = None, role = ''staff''\<rparr>],
     eventRegistrations = []\<rparr>
   = (Message 500 ''Failed to register for event'',
    \<lparr>events = [\<lparr>ev_id = ''e1'', startTime = 172800000, maxSeats = 5, remainingSeats = 5,
      creditsRequired = 3, cutoffHours = 12, extraServices = [],
      allowedRegistrants = ''attendee'', status = ''open'', deleted = False\<rparr>],
     attendee = [\<lparr>child_id = ''c1'', child_parentId = ''p1''\<rparr>,
       \<lparr>child_id = ''c2'', child_parentId = ''s1''\<rparr>],
     users = [\<lparr>user_id = ''p1'', replitId = None, role = ''user''\<rparr>,
       \<lparr>user_id = ''a1'', replitId = None, role = ''admin''\<rparr>,
       \<lparr>user_id = ''s1'', replitId = None, role = ''staff''\<rparr>],
     eventRegistrations = []\<rparr>)"
  using register_route_atomicity [of
      "\<lparr>offset_at_utc = (\<lambda>t. 0), offset_at_local = (\<lambda>t. 0)\<rparr>"
      "\<lparr>f_getEvent = True, f_isChildRegisteredForEvent = False,
      f_getChild = False, f_getEventRegistrationsByParent = False,
      f_createEventRegistration = False, f_getUserByReplitId = False,
      f_updateEventSeats = True\<rparr>" 0
      "\<lparr>req_user = LocalUser ''p1'' ''user'', params_eventId = ''e1'',
      body_childId = Some ''c1'', body_selectedServices = None\<rparr>"
    "\<lparr>events = [\<lparr>ev_id = ''e1'', startTime = 172800000, maxSeats = 5, remainingSeats = 5,
      creditsRequired = 3, cutoffHours = 12, extraServices = [],
      allowedRegistrants = ''attendee'', status = ''open'', deleted = False\<rparr>],
     attendee = [\<lparr>child_id = ''c1'', child_parentId = ''p1''\<rparr>,
       \<lparr>child_id = ''c2'', child_parentId = ''s1''\<rparr>],
     users = [\<lparr>user_id = ''p1'', replitId = None, role = ''user''\<rparr>,
       \<lparr>user_id = ''a1'', replitId = None, role = ''admin''\<rparr>,
       \<lparr>user_id = ''s1'', replitId = None, role = ''staff''\<rparr>],
     eventRegistrations = []\<rparr>"]
    register_route_atomicity [of
      "\<lparr>offset_at_utc = (\<lambda>t. 0), offset_at_local = (\<lambda>t. 0)\<rparr>"
      "\<lparr>f_getEvent = False, f_isChildRegisteredForEvent = False,
      f_getChild = False, f_getEventRegistrationsByParent = False,
      f_createEventRegistration = True, f_getUserByReplitId = False,
      f_updateEventSeats = False\<rparr>" 0
      "\<lparr>req_user = LocalUser ''p1'' ''user'', params_eventId = ''e1'',
      body_childId = Some ''c1'', body_selectedServices = None\<rparr>"
    "\<lparr>events = [\<lparr>ev_id = ''e1'', startTime = 172800000, maxSeats = 5, remainingSeats = 5,
      creditsRequired = 3, cutoffHours = 12, extraServices = [],
      allowedRegistrants = ''attendee'', status = ''open'', deleted = False\<rparr>],
     attendee = [\<lparr>child_id = ''c1'', child_parentId = ''p1''\<rparr>,
       \<lparr>child_id = ''c2'', child_parentId = ''s1''\<rparr>],
     users = [\<lparr>user_id = ''p1'', replitId = None, role = ''user''\<rparr>,
       \<lparr>user_id = ''a1'', replitId = None, role = ''admin''\<rparr>,
       \<lparr>user_id = ''s1'', replitId = None, role = ''staff''\<rparr>],
     eventRegistrations = []\<rparr>"]
  by (simp add: storage_defs route_defs)

section \<open>C3: the editing override\<close>

text \<open>
  C3. The claim: an event whose editing override is set derives \<open>editing\<close>, whatever
  the time, the seats and the cutoff. The code never derives \<open>editing\<close>: an event
  stored with status \<open>editing\<close>, starting in two days with five seats left, derives
  \<open>open\<close>, and since the listing replaces the stored status by the derived one, the
  event passes the filter of \<open>getEventsForUser\<close> that is meant to hide events being
  edited.
\<close>

theorem calculateEventStatus_editing_event_open:
  "calculateEventStatus 0
     \<lparr>ev_id = ''e1'', startTime = 172800000, maxSeats = 5, remainingSeats = 5,
      creditsRequired = 3, cutoffHours = 12, extraServices = [],
      allowedRegistrants = ''attendee'', status = ''editing'', deleted = False\<rparr> = Open
   \<and> map ev_id (getEventsForUser 0
        \<lparr>events = [\<lparr>ev_id = ''e1'', startTime = 172800000, maxSeats = 5, remainingSeats = 5,
            creditsRequired = 3, cutoffHours = 12, extraServices = [],
            allowedRegistrants = ''attendee'', status = ''editing'', deleted = False\<rparr>],
         attendee = [], users = [], eventRegistrations = []\<rparr>) = [''e1'']"
  by (simp add: calculateEventStatus_def getEventsForUser_def getAllEvents_def)

section \<open>C4: events that do not exist, events that are soft-deleted\<close>

text \<open>
  C4, as the spec states it, fails for soft-deleted events: \<open>getEvent\<close> selects by id
  alone and the route never reads the \<open>deleted\<close> flag, so a registration for a
  soft-deleted event with seats left is accepted.
\<close>

theorem register_route_deleted_event_accepted:
  "deleted \<lparr>ev_id = ''e1'', startTime = 172800000, maxSeats = 5, remainingSeats = 5,
      creditsRequired = 3, cutoffHours = 12, extraServices = [],
      allowedRegistrants = ''attendee'', status = ''open'', deleted = True\<rparr>
   \<and> fst (register_route \<lparr>offset_at_utc = (\<lambda>t. 0), offset_at_local = (\<lambda>t. 0)\<rparr>
      no_faults 0
      \<lparr>req_user = LocalUser ''p1'' ''user'', params_eventId = ''e1'',
      body_childId = Some ''c1'', body_selectedServices = None\<rparr>
    \<lparr>events = [\<lparr>ev_id = ''e1'', startTime = 172800000, maxSeats = 5, remainingSeats = 5,
      creditsRequired = 3, cutoffHours = 12, extraServices = [],
      allowedRegistrants = ''attendee'', status = ''open'', deleted = True\<rparr>],
     attendee = [\<lparr>child_id = ''c1'', child_parentId = ''p1''\<rparr>,
       \<lparr>child_id = ''c2'', child_parentId = ''s1''\<rparr>],
     users = [\<lparr>user_id = ''p1'', replitId = None, role = ''user''\<rparr>,
       \<lparr>user_id = ''a1'', replitId = None, role = ''admin''\<rparr>,
       \<lparr>user_id = ''s1'', replitId = None, role = ''staff''\<rparr>],
     eventRegistrations = []\<rparr>) = Json 201
     \<lparr>eventId = ''e1'', childId = Some ''c1'', parentId = ''p1'',
      selectedServices = [], creditsCost = 3, servicesCost = 0\<rparr>"
  by (simp add: storage_defs route_defs)

text \<open>
  C4, amended. For every registration request naming an event id that no row of the
  events table has, the route answers 404 \<open>Event not found\<close> and leaves the database as
  it was (the event lookup itself not throwing).
\<close>

theorem register_route_event_not_found:
  assumes "params_eventId req \<noteq> []" and "\<not> f_getEvent F"
      and "getEvent d (params_eventId req) = None"
  shows "register_route zone F now req d = (Message 404 ''Event not found'', d)"
  using assms
  by (simp add: register_route_def register_try_def register_checks_def Let_def
        registrationSchema_parse_def)

theorem register_route_event_not_found_witness:
  "register_route \<lparr>offset_at_utc = (\<lambda>t. 0), offset_at_local = (\<lambda>t. 0)\<rparr>
      no_faults 0
      \<lparr>req_user = LocalUser ''p1'' ''user'', params_eventId = ''e9'',
      body_childId = Some ''c1'', body_selectedServices = None\<rparr>
    \<lparr>events = [\<lparr>ev_id = ''e1'', startTime = 172800000, maxSeats = 5, remainingSeats = 5,
      creditsRequired = 3, cutoffHours = 12, extraServices = [],
      allowedRegistrants = ''attendee'', status = ''open'', deleted = False\<rparr>],
     attendee = [\<lparr>child_id = ''c1'', child_parentId = ''p1''\<rparr>,
       \<lparr>child_id = ''c2'', child_parentId = ''s1''\<rparr>],
     users = [\<lparr>user_id = ''p1'', replitId = None, role = ''user''\<rparr>,
       \<lparr>user_id = ''a1'', replitId = None, role = ''admin''\<rparr>,
       \<lparr>user_id = ''s1'', replitId = None, role = ''staff''\<rparr>],
     eventRegistrations = []\<rparr>
   = (Message 404 ''Event not found'',
    \<lparr>events = [\<lparr>ev_id = ''e1'', startTime = 172800000, maxSeats = 5, remainingSeats = 5,
      creditsRequired = 3, cutoffHours = 12, extraServices = [],
      allowedRegistrants = ''attendee'', status = ''open'', deleted = False\<rparr>],
     attendee = [\<lparr>child_id = ''c1'', child_parentId = ''p1''\<rparr>,
       \<lparr>child_id = ''c2'', child_parentId = ''s1''\<rparr>],
     users = [\<lparr>user_id = ''p1'', replitId = None, role = ''user''\<rparr>,
       \<lparr>user_id = ''a1'', replitId = None, role = ''admin''\<rparr>,
       \<lparr>user_id = ''s1'', replitId = None, role = ''staff''\<rparr>],
     eventRegistrations = []\<rparr>)"
  using register_route_event_not_found [of
      "\<lparr>req_user = LocalUser ''p1'' ''user'', params_eventId = ''e9'',
      body_childId = Some ''c1'', body_selectedServices = None\<rparr>"
      no_faults
    "\<lparr>events = [\<lparr>ev_id = ''e1'', startTime = 172800000, maxSeats = 5, remainingSeats = 5,
      creditsRequired = 3, cutoffHours = 12, extraServices = [],
      allowedRegistrants = ''attendee'', status = ''open'', deleted = False\<rparr>],
     attendee = [\<lparr>child_id = ''c1'', child_parentId = ''p1''\<rparr>,
       \<lparr>child_id = ''c2'', child_parentId = ''s1''\<rparr>],
     users = [\<lparr>user_id = ''p1'', replitId = None, role = ''user''\<rparr>,
       \<lparr>user_id = ''a1'', replitId = None, role = ''admin''\<rparr>,
       \<lparr>user_id = ''s1'', replitId = None, role = ''staff''\<rparr>],
     eventRegistrations = []\<rparr>"
      "\<lparr>offset_at_utc = (\<lambda>t. 0), offset_at_local = (\<lambda>t. 0)\<rparr>" 0]
  by (simp add: storage_defs no_faults_def)

section \<open>C5: the order of the checks\<close>



section \<open>C6: which registrations take a seat\<close>

text \<open>
  C6. After every accepted registration of a child the event has one remaining seat less,
  whatever the role of the caller; after every accepted registration of the caller
  alone (no child) it has one seat less when the caller's role is neither \<open>admin\<close> nor
  \<open>staff\<close>, and as many seats as before when it is one of the two.
\<close>

theorem register_route_seats:
  assumes "register_route zone F now req d = (Json 201 reg, d')"
      and "getEvent d (params_eventId req) = Some ev"
  shows "(childId reg \<noteq> None \<longrightarrow>
            map_option remainingSeats (getEvent d' (params_eventId req)) = Some (remainingSeats ev - 1))
       \<and> (childId reg = None \<and> userRole d (req_user req) \<noteq> Some ''admin''
            \<and> userRole d (req_user req) \<noteq> Some ''staff'' \<longrightarrow>
            map_option remainingSeats (getEvent d' (params_eventId req)) = Some (remainingSeats ev - 1))
       \<and> (childId reg = None \<and> (userRole d (req_user req) = Some ''admin''
            \<or> userRole d (req_user req) = Some ''staff'') \<longrightarrow>
            map_option remainingSeats (getEvent d' (params_eventId req)) = Some (remainingSeats ev))"
proof -
  from assms(1) have "register_try zone F now req d = (Inr (Json 201 reg), d')"
    by (simp add: register_route_Json)
  then obtain ev' rd where checks: "register_checks zone F now req d = Continues (ev', rd)"
    and ins: "register_insert F req ev' rd d = (Inr (Json 201 reg), d')"
    by (rule register_try_accepted)
  from register_checks_Continues [OF checks]
  have child: "ins_childId rd = (if truthy (body_childId req) then body_childId req else None)"
    by simp
  from ins child show ?thesis
    using assms(2)
    by (auto simp: register_insert_def Let_def updateSeatsAfterInsert_def
          getEvent_updateEventSeats truthy_def
          dest!: createEventRegistration_Some
          split: option.splits sum.splits prod.splits if_splits)
qed

text \<open>
  The witness: on an event with three seats left, an admin registering alone leaves three,
  an ordinary user registering alone leaves two, a staff member registering a child
  leaves two.
\<close>

theorem register_route_seats_witness:
  "map_option remainingSeats (getEvent (snd (register_route \<lparr>offset_at_utc = (\<lambda>t. 0), offset_at_local = (\<lambda>t. 0)\<rparr>
      no_faults 0
      \<lparr>req_user = LocalUser ''a1'' ''admin'', params_eventId = ''e1'',
      body_childId = None, body_selectedServices = None\<rparr>
    \<lparr>events = [\<lparr>ev_id = ''e1'', startTime = 172800000, maxSeats = 5, remainingSeats = 3,
      creditsRequired = 3, cutoffHours = 12, extraServices = [],
      allowedRegistrants = ''both'', status = ''open'', deleted = False\<rparr>],
     attendee = [\<lparr>child_id = ''c1'', child_parentId = ''p1''\<rparr>,
       \<lparr>child_id = ''c2'', child_parentId = ''s1''\<rparr>],
     users = [\<lparr>user_id = ''p1'', replitId = None, role = ''user''\<rparr>,
       \<lparr>user_id = ''a1'', replitId = None, role = ''admin''\<rparr>,
       \<lparr>user_id = ''s1'', replitId = None, role = ''staff''\<rparr>],
     eventRegistrations = []\<rparr>)) ''e1'') = Some 3
   \<and> map_option remainingSeats (getEvent (snd (register_route \<lparr>offset_at_utc = (\<lambda>t. 0), offset_at_local = (\<lambda>t. 0)\<rparr>
      no_faults 0
      \<lparr>req_user = LocalUser ''p1'' ''user'', params_eventId = ''e1'',
      body_childId = None, body_selectedServices = None\<rparr>
    \<lparr>events = [\<lparr>ev_id = ''e1'', startTime = 172800000, maxSeats = 5, remainingSeats = 3,
      creditsRequired = 3, cutoffHours = 12, extraServices = [],
      allowedRegistrants = ''both'', status = ''open'', deleted = False\<rparr>],
     attendee = [\<lparr>child_id = ''c1'', child_parentId = ''p1''\<rparr>,
       \<lparr>child_id = ''c2'', child_parentId = ''s1''\<rparr>],
     users = [\<lparr>user_id = ''p1'', replitId = None, role = ''user''\<rparr>,
       \<lparr>user_id = ''a1'', replitId = None, role = ''admin''\<rparr>,
       \<lparr>user_id = ''s1'', replitId = None, role = ''staff''\<rparr>],
     eventRegistrations = []\<rparr>)) ''e1'') = Some 2
   \<and> map_option remainingSeats (getEvent (snd (register_route \<lparr>offset_at_utc = (\<lambda>t. 0), offset_at_local = (\<lambda>t. 0)\<rparr>
      no_faults 0
      \<lparr>req_user = LocalUser ''s1'' ''staff'', params_eventId = ''e1'',
      body_childId = Some ''c2'', body_selectedServices = None\<rparr>
    \<lparr>events = [\<lparr>ev_id = ''e1'', startTime = 172800000, maxSeats = 5, remainingSeats = 3,
      creditsRequired = 3, cutoffHours = 12, extraServices = [],
      allowedRegistrants = ''both'', status = ''open'', deleted = False\<rparr>],
     attendee = [\<lparr>child_id = ''c1'', child_parentId = ''p1''\<rparr>,
       \<lparr>child_id = ''c2'', child_parentId = ''s1''\<rparr>],
     users = [\<lparr>user_id = ''p1'', replitId = None, role = ''user''\<rparr>,
       \<lparr>user_id = ''a1'', replitId = None, role = ''admin''\<rparr>,
       \<lparr>user_id = ''s1'', replitId = None, role = ''staff''\<rparr>],
     eventRegistrations = []\<rparr>)) ''e1'') = Some 2"
  using register_route_seats [of
      "\<lparr>offset_at_utc = (\<lambda>t. 0), offset_at_local = (\<lambda>t. 0)\<rparr>" no_faults 0
      "\<lparr>req_user = LocalUser ''a1'' ''admin'', params_eventId = ''e1'',
      body_childId = None, body_selectedServices = None\<rparr>"
    "\<lparr>events = [\<lparr>ev_id = ''e1'', startTime = 172800000, maxSeats = 5, remainingSeats = 3,
      creditsRequired = 3, cutoffHours = 12, extraServices = [],
      allowedRegistrants = ''both'', status = ''open'', deleted = False\<rparr>],
     attendee = [\<lparr>child_id = ''c1'', child_parentId = ''p1''\<rparr>,
       \<lparr>child_id = ''c2'', child_parentId = ''s1''\<rparr>],
     users = [\<lparr>user_id = ''p1'', replitId = None, role = ''user''\<rparr>,
       \<lparr>user_id = ''a1'', replitId = None, role = ''admin''\<rparr>,
       \<lparr>user_id = ''s1'', replitId = None, role = ''staff''\<rparr>],
     eventRegistrations = []\<rparr>"
    "\<lparr>eventId = ''e1'', childId = None, parentId = ''a1'',
      selectedServices = [], creditsCost = 3, servicesCost = 0\<rparr>"
    "snd (register_route \<lparr>offset_at_utc = (\<lambda>t. 0), offset_at_local = (\<lambda>t. 0)\<rparr> no_faults 0
      \<lparr>req_user = LocalUser ''a1'' ''admin'', params_eventId = ''e1'',
      body_childId = None, body_selectedServices = None\<rparr>
    \<lparr>events = [\<lparr>ev_id = ''e1'', startTime = 172800000, maxSeats = 5, remainingSeats = 3,
      creditsRequired = 3, cutoffHours = 12, extraServices = [],
      allowedRegistrants = ''both'', status = ''open'', deleted = False\<rparr>],
     attendee = [\<lparr>child_id = ''c1'', child_parentId = ''p1''\<rparr>,
       \<lparr>child_id = ''c2'', child_parentId = ''s1''\<rparr>],
     users = [\<lparr>user_id = ''p1'', replitId = None, role = ''user''\<rparr>,
       \<lparr>user_id = ''a1'', replitId = None, role = ''admin''\<rparr>,
       \<lparr>user_id = ''s1'', replitId = None, role = ''staff''\<rparr>],
     eventRegistrations = []\<rparr>)"
    "\<lparr>ev_id = ''e1'', startTime = 172800000, maxSeats = 5, remainingSeats = 3,
      creditsRequired = 3, cutoffHours = 12, extraServices = [],
      allowedRegistrants = ''both'', status = ''open'', deleted = False\<rparr>"]
    register_route_seats [of
      "\<lparr>offset_at_utc = (\<lambda>t. 0), offset_at_local = (\<lambda>t. 0)\<rparr>" no_faults 0
      "\<lparr>req_user = LocalUser ''p1'' ''user'', params_eventId = ''e1'',
      body_childId = None, body_selectedServices = None\<rparr>"
    "\<lparr>events = [\<lparr>ev_id = ''e1'', startTime = 172800000, maxSeats = 5, remainingSeats = 3,
      creditsRequired = 3, cutoffHours = 12, extraServices = [],
      allowedRegistrants = ''both'', status = ''open'', deleted = False\<rparr>],
     attendee = [\<lparr>child_id = ''c1'', child_parentId = ''p1''\<rparr>,
       \<lparr>child_id = ''c2'', child_parentId = ''s1''\<rparr>],
     users = [\<lparr>user_id = ''p1'', replitId = None, role = ''user''\<rparr>,
       \<lparr>user_id = ''a1'', replitId = None, role = ''admin''\<rparr>,
       \<lparr>user_id = ''s1'', replitId = None, role = ''staff''\<rparr>],
     eventRegistrations = []\<rparr>"
    "\<lparr>eventId = ''e1'', childId = None, parentId = ''p1'',
      selectedServices = [], creditsCost = 3, servicesCost = 0\<rparr>"
    "snd (register_route \<lparr>offset_at_utc = (\<lambda>t. 0), offset_at_local = (\<lambda>t. 0)\<rparr> no_faults 0
      \<lparr>req_user = LocalUser ''p1'' ''user'', params_eventId = ''e1'',
      body_childId = None, body_selectedServices = None\<rparr>
    \<lparr>events = [\<lparr>ev_id = ''e1'', startTime = 172800000, maxSeats = 5, remainingSeats = 3,
      creditsRequired = 3, cutoffHours = 12, extraServices = [],
      allowedRegistrants = ''both'', status = ''open'', deleted = False\<rparr>],
     attendee = [\<lparr>child_id = ''c1'', child_parentId = ''p1''\<rparr>,
       \<lparr>child_id = ''c2'', child_parentId = ''s1''\<rparr>],
     users = [\<lparr>user_id = ''p1'', replitId = None, role = ''user''\<rparr>,
       \<lparr>user_id = ''a1'', replitId = None, role = ''admin''\<rparr>,
       \<lparr>user_id = ''s1'', replitId = None, role = ''staff''\<rparr>],
     eventRegistrations = []\<rparr>)"
    "\<lparr>ev_id = ''e1'', startTime = 172800000, maxSeats = 5, remainingSeats = 3,
      creditsRequired = 3, cutoffHours = 12, extraServices = [],
      allowedRegistrants = ''both'', status = ''open'', deleted = False\<rparr>"]
    register_route_seats [of
      "\<lparr>offset_at_utc = (\<lambda>t. 0), offset_at_local = (\<lambda>t. 0)\<rparr>" no_faults 0
      "\<lparr>req_user = LocalUser ''s1'' ''staff'', params_eventId = ''e1'',
      body_childId = Some ''c2'', body_selectedServices = None\<rparr>"
    "\<lparr>events = [\<lparr>ev_id = ''e1'', startTime = 172800000, maxSeats = 5, remainingSeats = 3,
      creditsRequired = 3, cutoffHours = 12, extraServices = [],
      allowedRegistrants = ''both'', status = ''open'', deleted = False\<rparr>],
     attendee = [\<lparr>child_id = ''c1'', child_parentId = ''p1''\<rparr>,
       \<lparr>child_id = ''c2'', child_parentId = ''s1''\<rparr>],
     users = [\<lparr>user_id = ''p1'', replitId = None, role = ''user''\<rparr>,
       \<lparr>user_id = ''a1'', replitId = None, role = ''admin''\<rparr>,
       \<lparr>user_id = ''s1'', replitId = None, role = ''staff''\<rparr>],
     eventRegistrations = []\<rparr>"
    "\<lparr>eventId = ''e1'', childId = Some ''c2'', parentId = ''s1'',
      selectedServices = [], creditsCost = 3, servicesCost = 0\<rparr>"
    "snd (register_route \<lparr>offset_at_utc = (\<lambda>t. 0), offset_at_local = (\<lambda>t. 0)\<rparr> no_faults 0
      \<lparr>req_user = LocalUser ''s1'' ''staff'', params_eventId = ''e1'',
      body_childId = Some ''c2'', body_selectedServices = None\<rparr>
    \<lparr>events = [\<lparr>ev_id = ''e1'', startTime = 172800000, maxSeats = 5, remainingSeats = 3,
      creditsRequired = 3, cutoffHours = 12, extraServices = [],
      allowedRegistrants = ''both'', status = ''open'', deleted = False\<rparr>],
     attendee = [\<lparr>child_id = ''c1'', child_parentId = ''p1''\<rparr>,
       \<lparr>child_id = ''c2'', child_parentId = ''s1''\<rparr>],
     users = [\<lparr>user_id = ''p1'', replitId = None, role = ''user''\<rparr>,
       \<lparr>user_id = ''a1'', replitId = None, role = ''admin''\<rparr>,
       \<lparr>user_id = ''s1'', replitId = None, role = ''staff''\<rparr>],
     eventRegistrations = []\<rparr>)"
    "\<lparr>ev_id = ''e1'', startTime = 172800000, maxSeats = 5, remainingSeats = 3,
      creditsRequired = 3, cutoffHours = 12, extraServices = [],
      allowedRegistrants = ''both'', status = ''open'', deleted = False\<rparr>"]
  by (simp add: storage_defs route_defs)

section \<open>C7: the costs of an accepted registration\<close>

text \<open>
  The amounts of the examples below, evaluated: \<open>0.175 * 100\<close> is \<open>17.5\<close> in doubles
  (the exact product of the double nearest to \<open>0.175\<close> lies just under it), which
  \<^verbatim>\<open>Math.round\<close> takes to 18; and \<open>10\<^sup>1\<^sup>8 + 1\<close> is \<open>10\<^sup>1\<^sup>8\<close> in doubles.
\<close>

lemma priceInCents_examples:
  "priceInCents \<lparr>description = ''Tea'', price = 7 / 40\<rparr> = Finite 18"
  "priceInCents \<lparr>description = ''Food'', price = 10\<rparr> = Finite 1000"
  "priceInCents \<lparr>description = ''Snacks'', price = 5\<rparr> = Finite 500"
  "priceInCents \<lparr>description = ''Deposit'', price = 10000000000000000\<rparr>
     = Finite 1000000000000000000"
  "priceInCents \<lparr>description = ''Sticker'', price = 1 / 100\<rparr> = Finite 1"
  "priceInCents \<lparr>description = ''Refund'', price = - 10000000000000000\<rparr>
     = Finite (- 1000000000000000000)"
  by (simp_all add: number_eval)

lemma js_add_examples:
  "js_add (Finite 0) (Finite 18) = Finite 18"
  "js_add (Finite 18) (Finite 1000) = Finite 1018"
  "js_add (Finite 1018) (Finite 500) = Finite 1518"
  "js_add (Finite 0) (Finite 1000000000000000000) = Finite 1000000000000000000"
  "js_add (Finite 1000000000000000000) (Finite 1) = Finite 1000000000000000000"
  "js_add (Finite 1000000000000000000) (Finite (- 1000000000000000000)) = Finite 0"
  by (simp_all add: number_eval)

text \<open>
  C7, as the spec states it, fails: the route adds the amounts up in JavaScript numbers,
  and a running total of \<open>2\<^sup>5\<^sup>3\<close> cents or more loses the small amounts added to it.
  With three services whose prices come to \<open>10\<^sup>1\<^sup>8\<close>, \<open>1\<close> and \<open>-10\<^sup>1\<^sup>8\<close> cents, all
  three selected, the registration is accepted with a services cost of 0, where the sum
  of the three amounts is 1.
\<close>

theorem register_route_cost_not_the_sum:
  "fst (register_route \<lparr>offset_at_utc = (\<lambda>t. 0), offset_at_local = (\<lambda>t. 0)\<rparr>
      no_faults 0
      \<lparr>req_user = LocalUser ''p1'' ''user'', params_eventId = ''e1'',
      body_childId = Some ''c1'', body_selectedServices = Some [0, 1, 2]\<rparr>
    \<lparr>events = [\<lparr>ev_id = ''e1'', startTime = 172800000, maxSeats = 5, remainingSeats = 5,
      creditsRequired = 3, cutoffHours = 12, extraServices = [\<lparr>description = ''Deposit'', price = 10000000000000000\<rparr>,
        \<lparr>description = ''Sticker'', price = 1 / 100\<rparr>,
        \<lparr>description = ''Refund'', price = - 10000000000000000\<rparr>],
      allowedRegistrants = ''attendee'', status = ''open'', deleted = False\<rparr>],
     attendee = [\<lparr>child_id = ''c1'', child_parentId = ''p1''\<rparr>,
       \<lparr>child_id = ''c2'', child_parentId = ''s1''\<rparr>],
     users = [\<lparr>user_id = ''p1'', replitId = None, role = ''user''\<rparr>,
       \<lparr>user_id = ''a1'', replitId = None, role = ''admin''\<rparr>,
       \<lparr>user_id = ''s1'', replitId = None, role = ''staff''\<rparr>],
     eventRegistrations = []\<rparr>) = Json 201
     \<lparr>eventId = ''e1'', childId = Some ''c1'', parentId = ''p1'',
      selectedServices = [0, 1, 2], creditsCost = 3, servicesCost = 0\<rparr>
   \<and> map priceInCents
       [\<lparr>description = ''Deposit'', price = 10000000000000000\<rparr>,
        \<lparr>description = ''Sticker'', price = 1 / 100\<rparr>,
        \<lparr>description = ''Refund'', price = - 10000000000000000\<rparr>]
     = [Finite 1000000000000000000, Finite 1, Finite (- 1000000000000000000)]
   \<and> sum_list [1000000000000000000, 1, - 1000000000000000000] = (1 :: int)"
  by (simp add: storage_defs route_defs number_eval)

text \<open>
  C7, amended. On every accepted registration the credits cost is the event's
  \<open>creditsRequired\<close>, whether or not a child is registered, and the services cost is the
  total, added up from left to right in JavaScript numbers, of
  \<^verbatim>\<open>Math.round(price * 100)\<close> over the selected indices that fall within the event's
  extra services; it is the exact sum of these amounts whenever they are integers whose
  running totals stay below \<open>2\<^sup>5\<^sup>3\<close> in magnitude. An index outside the list adds
  nothing and causes no rejection: a request that differs from an accepted one only in
  such indices is accepted as well.
\<close>

theorem register_route_costs:
  assumes "register_route zone F now req d = (Json 201 reg, d')"
  shows "\<exists>ev. getEvent d (params_eventId req) = Some ev
     \<and> creditsCost reg = creditsRequired ev
     \<and> Finite (of_int (servicesCost reg))
         = foldl js_add (Finite 0)
             (map priceInCents (selected_in_range ev (orElse (body_selectedServices req) [])))
     \<and> (\<forall>cs. map priceInCents (selected_in_range ev (orElse (body_selectedServices req) []))
               = map (\<lambda>c. Finite (of_int c)) cs
             \<and> safe_totals 0 cs \<longrightarrow> servicesCost reg = sum_list cs)
     \<and> (\<forall>sel'. filter (in_range ev) sel' = filter (in_range ev) (orElse (body_selectedServices req) []) \<longrightarrow>
           (\<exists>reg'. fst (register_route zone F now (req\<lparr>body_selectedServices := Some sel'\<rparr>) d)
                     = Json 201 reg'))"
proof -
  from assms have "register_try zone F now req d = (Inr (Json 201 reg), d')"
    by (simp add: register_route_Json)
  then obtain ev rd where checks: "register_checks zone F now req d = Continues (ev, rd)"
    and ins: "register_insert F req ev rd d = (Inr (Json 201 reg), d')"
    by (rule register_try_accepted)
  from register_checks_Continues [OF checks]
  have ev: "getEvent d (params_eventId req) = Some ev" by simp
  from register_insert_cases [of F req ev rd d] ins
  have credits: "creditsCost reg = creditsRequired ev"
    and cost: "pg_integer (calcServicesCost ev (orElse (body_selectedServices req) [])) = Some (servicesCost reg)"
    by auto
  from pg_integer_of_int [OF cost]
  have total: "Finite (of_int (servicesCost reg))
         = foldl js_add (Finite 0)
             (map priceInCents (selected_in_range ev (orElse (body_selectedServices req) [])))"
    by (simp add: calcServicesCost_in_range)
  have exact: "servicesCost reg = sum_list cs"
    if "map priceInCents (selected_in_range ev (orElse (body_selectedServices req) []))
          = map (\<lambda>c. Finite (of_int c)) cs" and "safe_totals 0 cs" for cs
  proof -
    from foldl_js_add_safe [OF that(2)] that(1) total
    have "(of_int (servicesCost reg) :: rat) = of_int (sum_list cs)" by simp
    then show ?thesis by (simp only: of_int_eq_iff)
  qed
  have other: "\<exists>reg'. fst (register_route zone F now (req\<lparr>body_selectedServices := Some sel'\<rparr>) d)
                     = Json 201 reg'"
    if "filter (in_range ev) sel' = filter (in_range ev) (orElse (body_selectedServices req) [])" for sel'
  proof -
    from calcServicesCost_same_in_range [OF that]
    have "calcServicesCost ev (orElse (Some sel') []) = calcServicesCost ev (orElse (body_selectedServices req) [])"
      by (simp add: orElse_def)
    from register_insert_selected [OF ins this]
    obtain reg' d2' where "register_insert F (req\<lparr>body_selectedServices := Some sel'\<rparr>) ev
        (rd\<lparr>ins_selectedServices := orElse (Some sel') []\<rparr>) d = (Inr (Json 201 reg'), d2')"
      by blast
    with register_checks_selected [OF checks, of "Some sel'"]
    have "register_try zone F now (req\<lparr>body_selectedServices := Some sel'\<rparr>) d
            = (Inr (Json 201 reg'), d2')"
      by (simp add: register_try_def)
    then show ?thesis by (auto simp: fst_register_route_Json)
  qed
  from ev credits total exact other show ?thesis by blast
qed

text \<open>
  The witness: three extra services priced 0.175, 10 and 5; the request selects the
  three, an index past the end and a negative index. The amounts are 18, 1000 and 500
  cents, the services cost 1518.
\<close>

theorem register_route_costs_witness:
  "register_route \<lparr>offset_at_utc = (\<lambda>t. 0), offset_at_local = (\<lambda>t. 0)\<rparr>
      no_faults 0
      \<lparr>req_user = LocalUser ''p1'' ''user'', params_eventId = ''e1'',
      body_childId = Some ''c1'', body_selectedServices = Some [0, 1, 2, 7, - 1]\<rparr>
    \<lparr>events = [\<lparr>ev_id = ''e1'', startTime = 172800000, maxSeats = 5, remainingSeats = 5,
      creditsRequired = 3, cutoffHours = 12, extraServices = [\<lparr>description = ''Tea'', price = 7 / 40\<rparr>,
        \<lparr>description = ''Food'', price = 10\<rparr>,
        \<lparr>description = ''Snacks'', price = 5\<rparr>],
      allowedRegistrants = ''attendee'', status = ''open'', deleted = False\<rparr>],
     attendee = [\<lparr>child_id = ''c1'', child_parentId = ''p1''\<rparr>,
       \<lparr>child_id = ''c2'', child_parentId = ''s1''\<rparr>],
     users = [\<lparr>user_id = ''p1'', replitId = None, role = ''user''\<rparr>,
       \<lparr>user_id = ''a1'', replitId = None, role = ''admin''\<rparr>,
       \<lparr>user_id = ''s1'', replitId = None, role = ''staff''\<rparr>],
     eventRegistrations = []\<rparr>
   = (Json 201
     \<lparr>eventId = ''e1'', childId = Some ''c1'', parentId = ''p1'',
      selectedServices = [0, 1, 2, 7, - 1], creditsCost = 3, servicesCost = 1518\<rparr>,
    \<lparr>events = [\<lparr>ev_id = ''e1'', startTime = 172800000, maxSeats = 5, remainingSeats = 4,
      creditsRequired = 3, cutoffHours = 12, extraServices = [\<lparr>description = ''Tea'', price = 7 / 40\<rparr>,
        \<lparr>description = ''Food'', price = 10\<rparr>,
        \<lparr>description = ''Snacks'', price = 5\<rparr>],
      allowedRegistrants = ''attendee'', status = ''open'', deleted = False\<rparr>],
     attendee = [\<lparr>child_id = ''c1'', child_parentId = ''p1''\<rparr>,
       \<lparr>child_id = ''c2'', child_parentId = ''s1''\<rparr>],
     users = [\<lparr>user_id = ''p1'', replitId = None, role = ''user''\<rparr>,
       \<lparr>user_id = ''a1'', replitId = None, role = ''admin''\<rparr>,
       \<lparr>user_id = ''s1'', replitId = None, role = ''staff''\<rparr>],
     eventRegistrations = [\<lparr>eventId = ''e1'', childId = Some ''c1'', parentId = ''p1'',
      selectedServices = [0, 1, 2, 7, - 1], creditsCost = 3, servicesCost = 1518\<rparr>]\<rparr>)
   \<and> servicesCost
     \<lparr>eventId = ''e1'', childId = Some ''c1'', parentId = ''p1'',
      selectedServices = [0, 1, 2, 7, - 1], creditsCost = 3, servicesCost = 1518\<rparr> = sum_list [18, 1000, 500]"
  using register_route_costs [of
      "\<lparr>offset_at_utc = (\<lambda>t. 0), offset_at_local = (\<lambda>t. 0)\<rparr>" no_faults 0
      "\<lparr>req_user = LocalUser ''p1'' ''user'', params_eventId = ''e1'',
      body_childId = Some ''c1'', body_selectedServices = Some [0, 1, 2, 7, - 1]\<rparr>"
    "\<lparr>events = [\<lparr>ev_id = ''e1'', startTime = 172800000, maxSeats = 5, remainingSeats = 5,
      creditsRequired = 3, cutoffHours = 12, extraServices = [\<lparr>description = ''Tea'', price = 7 / 40\<rparr>,
        \<lparr>description = ''Food'', price = 10\<rparr>,
        \<lparr>description = ''Snacks'', price = 5\<rparr>],
      allowedRegistrants = ''attendee'', status = ''open'', deleted = False\<rparr>],
     attendee = [\<lparr>child_id = ''c1'', child_parentId = ''p1''\<rparr>,
       \<lparr>child_id = ''c2'', child_parentId = ''s1''\<rparr>],
     users = [\<lparr>user_id = ''p1'', replitId = None, role = ''user''\<rparr>,
       \<lparr>user_id = ''a1'', replitId = None, role = ''admin''\<rparr>,
       \<lparr>user_id = ''s1'', replitId = None, role = ''staff''\<rparr>],
     eventRegistrations = []\<rparr>"
    "\<lparr>eventId = ''e1'', childId = Some ''c1'', parentId = ''p1'',
      selectedServices = [0, 1, 2, 7, - 1], creditsCost = 3, servicesCost = 1518\<rparr>"
    "\<lparr>events = [\<lparr>ev_id = ''e1'', startTime = 172800000, maxSeats = 5, remainingSeats = 4,
      creditsRequired = 3, cutoffHours = 12, extraServices = [\<lparr>description = ''Tea'', price = 7 / 40\<rparr>,
        \<lparr>description = ''Food'', price = 10\<rparr>,
        \<lparr>description = ''Snacks'', price = 5\<rparr>],
      allowedRegistrants = ''attendee'', status = ''open'', deleted = False\<rparr>],
     attendee = [\<lparr>child_id = ''c1'', child_parentId = ''p1''\<rparr>,
       \<lparr>child_id = ''c2'', child_parentId = ''s1''\<rparr>],
     users = [\<lparr>user_id = ''p1'', replitId = None, role = ''user''\<rparr>,
       \<lparr>user_id = ''a1'', replitId = None, role = ''admin''\<rparr>,
       \<lparr>user_id = ''s1'', replitId = None, role = ''staff''\<rparr>],
     eventRegistrations = [\<lparr>eventId = ''e1'', childId = Some ''c1'', parentId = ''p1'',
      selectedServices = [0, 1, 2, 7, - 1], creditsCost = 3, servicesCost = 1518\<rparr>]\<rparr>"]
  by (simp add: storage_defs route_defs number_eval)

section \<open>C8: the status update\<close>

text \<open>
  C8. The claim: the status update rejects every status outside \<open>open\<close>,
  \<open>registration_closed\<close>, \<open>full\<close>, \<open>past\<close>, \<open>editing\<close>, and answers 404 for an event
  that does not exist. The route hands \<open>req.body.status\<close> to the storage unchecked: the
  status \<open>banana\<close> is stored and the request answered with status 200. (The second half
  of the claim holds: for an id that no event has the answer is 404.)
\<close>

theorem put_status_route_stores_any_status:
  "put_status_route False ''e1'' ''banana''
    \<lparr>events = [\<lparr>ev_id = ''e1'', startTime = 172800000, maxSeats = 5, remainingSeats = 5,
      creditsRequired = 3, cutoffHours = 12, extraServices = [],
      allowedRegistrants = ''attendee'', status = ''open'', deleted = False\<rparr>],
     attendee = [\<lparr>child_id = ''c1'', child_parentId = ''p1''\<rparr>], users = [],
     eventRegistrations = []\<rparr>
   = (Json 200
     \<lparr>ev_id = ''e1'', startTime = 172800000, maxSeats = 5, remainingSeats = 5,
      creditsRequired = 3, cutoffHours = 12, extraServices = [],
      allowedRegistrants = ''attendee'', status = ''banana'', deleted = False\<rparr>,
    \<lparr>events = [\<lparr>ev_id = ''e1'', startTime = 172800000, maxSeats = 5, remainingSeats = 5,
      creditsRequired = 3, cutoffHours = 12, extraServices = [],
      allowedRegistrants = ''attendee'', status = ''banana'', deleted = False\<rparr>],
     attendee = [\<lparr>child_id = ''c1'', child_parentId = ''p1''\<rparr>], users = [],
     eventRegistrations = []\<rparr>)
   \<and> fst (put_status_route False ''e9'' ''banana''
    \<lparr>events = [\<lparr>ev_id = ''e1'', startTime = 172800000, maxSeats = 5, remainingSeats = 5,
      creditsRequired = 3, cutoffHours = 12, extraServices = [],
      allowedRegistrants = ''attendee'', status = ''open'', deleted = False\<rparr>],
     attendee = [\<lparr>child_id = ''c1'', child_parentId = ''p1''\<rparr>], users = [],
     eventRegistrations = []\<rparr>) = Message 404 ''Event not found''"
  by (simp add: storage_defs route_defs)

section \<open>C9: past events\<close>

text \<open>
  C9, as the spec states it, fails at the boundary instant: the code tests
  \<open>eventDate < now\<close>, so an event starting exactly now is not yet past.
\<close>

theorem calculateEventStatus_boundary_not_past:
  "status \<lparr>ev_id = ''e1'', startTime = 1000, maxSeats = 5, remainingSeats = 5,
      creditsRequired = 3, cutoffHours = 12, extraServices = [],
      allowedRegistrants = ''attendee'', status = ''open'', deleted = False\<rparr> \<noteq> ''editing''
   \<and> startTime \<lparr>ev_id = ''e1'', startTime = 1000, maxSeats = 5, remainingSeats = 5,
      creditsRequired = 3, cutoffHours = 12, extraServices = [],
      allowedRegistrants = ''attendee'', status = ''open'', deleted = False\<rparr> \<le> 1000
   \<and> calculateEventStatus 1000
     \<lparr>ev_id = ''e1'', startTime = 1000, maxSeats = 5, remainingSeats = 5,
      creditsRequired = 3, cutoffHours = 12, extraServices = [],
      allowedRegistrants = ''attendee'', status = ''open'', deleted = False\<rparr>
     = RegistrationClosed"
  by (simp add: calculateEventStatus_def)

text \<open>
  C9, amended. For every event without the editing override and every instant strictly
  after its start the derived status is \<open>past\<close>, whatever the seats and the cutoff; at
  the start instant itself such an event is not past and the later rules decide:
  \<open>full\<close> without seats, else \<open>registration_closed\<close> when the cutoff is positive, else
  \<open>open\<close>.
\<close>

theorem calculateEventStatus_past:
  assumes "status event \<noteq> ''editing''"
  shows "(startTime event < now \<longrightarrow> calculateEventStatus now event = Past)
   \<and> (now = startTime event \<longrightarrow>
        calculateEventStatus now event =
          (if remainingSeats event \<le> 0 then Full
           else if 0 < cutoffHours event then RegistrationClosed else Open))"
  by (simp add: calculateEventStatus_def)

theorem calculateEventStatus_past_witness:
  "calculateEventStatus 1001
     \<lparr>ev_id = ''e1'', startTime = 1000, maxSeats = 5, remainingSeats = 0,
      creditsRequired = 3, cutoffHours = 12, extraServices = [],
      allowedRegistrants = ''attendee'', status = ''open'', deleted = False\<rparr> = Past
   \<and> calculateEventStatus 1000
     \<lparr>ev_id = ''e1'', startTime = 1000, maxSeats = 5, remainingSeats = 0,
      creditsRequired = 3, cutoffHours = 12, extraServices = [],
      allowedRegistrants = ''attendee'', status = ''open'', deleted = False\<rparr> = Full"
  using calculateEventStatus_past
    [of "\<lparr>ev_id = ''e1'', startTime = 1000, maxSeats = 5, remainingSeats = 0,
      creditsRequired = 3, cutoffHours = 12, extraServices = [],
      allowedRegistrants = ''attendee'', status = ''open'', deleted = False\<rparr>" 1001]
    calculateEventStatus_past
    [of "\<lparr>ev_id = ''e1'', startTime = 1000, maxSeats = 5, remainingSeats = 0,
      creditsRequired = 3, cutoffHours = 12, extraServices = [],
      allowedRegistrants = ''attendee'', status = ''open'', deleted = False\<rparr>" 1000]
  by simp

section \<open>C10: the detailed listing of a parent's registrations\<close>

text \<open>
  C10. The detailed listing of a parent's registrations joins each registration with its
  child, so every row of it has a child: a registration of the parent alone (no child)
  is in the plain listing \<open>getEventRegistrationsByParent\<close> and in no row of the
  detailed one.
\<close>

theorem details_only_child_registrations:
  "(\<forall>row \<in> set (getEventRegistrationsWithDetailsForParent d p).
       childId (row_registration row) \<noteq> None)
   \<and> (\<forall>reg \<in> set (eventRegistrations d). parentId reg = p \<and> childId reg = None \<longrightarrow>
         reg \<in> set (getEventRegistrationsByParent d p)
         \<and> reg \<notin> row_registration ` set (getEventRegistrationsWithDetailsForParent d p))"
proof (intro conjI ballI impI)
  fix row assume "row \<in> set (getEventRegistrationsWithDetailsForParent d p)"
  then show "childId (row_registration row) \<noteq> None"
    by (rule details_row_child)
next
  fix reg assume "reg \<in> set (eventRegistrations d)" and "parentId reg = p \<and> childId reg = None"
  then show "reg \<in> set (getEventRegistrationsByParent d p)"
    by (simp add: plain_listing_member)
next
  fix reg assume "reg \<in> set (eventRegistrations d)" and h: "parentId reg = p \<and> childId reg = None"
  show "reg \<notin> row_registration ` set (getEventRegistrationsWithDetailsForParent d p)"
  proof
    assume "reg \<in> row_registration ` set (getEventRegistrationsWithDetailsForParent d p)"
    then obtain row where "row \<in> set (getEventRegistrationsWithDetailsForParent d p)"
      and "reg = row_registration row" by blast
    then have "childId reg \<noteq> None" using details_row_child by blast
    with h show False by simp
  qed
qed

text \<open>
  The witness: a parent with a registration alone and a registration of a child; the
  plain listing has both, the detailed listing the child's only.
\<close>

theorem details_only_child_registrations_witness:
  "getEventRegistrationsByParent
    \<lparr>events = [\<lparr>ev_id = ''e1'', startTime = 172800000, maxSeats = 5, remainingSeats = 5,
      creditsRequired = 3, cutoffHours = 12, extraServices = [],
      allowedRegistrants = ''attendee'', status = ''open'', deleted = False\<rparr>],
     attendee = [\<lparr>child_id = ''c1'', child_parentId = ''p1''\<rparr>], users = [],
     eventRegistrations = [\<lparr>eventId = ''e1'', childId = None, parentId = ''p1'',
      selectedServices = [], creditsCost = 0, servicesCost = 0\<rparr>,
      \<lparr>eventId = ''e1'', childId = Some ''c1'', parentId = ''p1'',
      selectedServices = [], creditsCost = 3, servicesCost = 0\<rparr>]\<rparr> ''p1''
   = [\<lparr>eventId = ''e1'', childId = None, parentId = ''p1'',
      selectedServices = [], creditsCost = 0, servicesCost = 0\<rparr>,
      \<lparr>eventId = ''e1'', childId = Some ''c1'', parentId = ''p1'',
      selectedServices = [], creditsCost = 3, servicesCost = 0\<rparr>]
   \<and> map row_registration (getEventRegistrationsWithDetailsForParent
    \<lparr>events = [\<lparr>ev_id = ''e1'', startTime = 172800000, maxSeats = 5, remainingSeats = 5,
      creditsRequired = 3, cutoffHours = 12, extraServices = [],
      allowedRegistrants = ''attendee'', status = ''open'', deleted = False\<rparr>],
     attendee = [\<lparr>child_id = ''c1'', child_parentId = ''p1''\<rparr>], users = [],
     eventRegistrations = [\<lparr>eventId = ''e1'', childId = None, parentId = ''p1'',
      selectedServices = [], creditsCost = 0, servicesCost = 0\<rparr>,
      \<lparr>eventId = ''e1'', childId = Some ''c1'', parentId = ''p1'',
      selectedServices = [], creditsCost = 3, servicesCost = 0\<rparr>]\<rparr> ''p1'')
   = [\<lparr>eventId = ''e1'', childId = Some ''c1'', parentId = ''p1'',
      selectedServices = [], creditsCost = 3, servicesCost = 0\<rparr>]"
  using details_only_child_registrations [of
    "\<lparr>events = [\<lparr>ev_id = ''e1'', startTime = 172800000, maxSeats = 5, remainingSeats = 5,
      creditsRequired = 3, cutoffHours = 12, extraServices = [],
      allowedRegistrants = ''attendee'', status = ''open'', deleted = False\<rparr>],
     attendee = [\<lparr>child_id = ''c1'', child_parentId = ''p1''\<rparr>], users = [],
     eventRegistrations = [\<lparr>eventId = ''e1'', childId = None, parentId = ''p1'',
      selectedServices = [], creditsCost = 0, servicesCost = 0\<rparr>,
      \<lparr>eventId = ''e1'', childId = Some ''c1'', parentId = ''p1'',
      selectedServices = [], creditsCost = 3, servicesCost = 0\<rparr>]\<rparr>" "''p1''"]
  by (simp add: getEventRegistrationsByParent_def getEventRegistrationsWithDetailsForParent_def)

end
